theory Spec2Isabelle
  imports Main "HOL-Library.Word"
begin

section \<open>Data model\<close>

text \<open>
  The five tables of \<^verbatim>\<open>app/models\<close>, one record per mapped class. Field names carry the
  table's initial because Isabelle record fields share one name space
  (\<^verbatim>\<open>Order.customer_id\<close> is \<open>o_customer_id\<close>, \<^verbatim>\<open>Track.order_id\<close> is \<open>t_order_id\<close>).
  A nullable column is an \<open>option\<close>. \<^verbatim>\<open>Numeric(10, 2)\<close> money is an integer number of
  hundredths; \<^verbatim>\<open>float(service.price)\<close> followed by the store back into a
  \<^verbatim>\<open>Numeric(10, 2)\<close> column is the identity on such values. The enum columns hold the
  enum member's name as a string, in both back ends. The columns \<^verbatim>\<open>created_at\<close> and
  \<^verbatim>\<open>updated_at\<close> are filled by column defaults, never by a route handler, and are left
  out.
\<close>

type_synonym datetime = nat
type_synonym money = int

record Service =
  s_id :: int
  s_name :: string
  s_price :: money
  s_duration_minutes :: "int option"
  s_status :: string

record Customer =
  c_id :: int
  c_name :: string
  c_email :: string
  c_phone :: "string option"
  c_password_hash :: string
  c_is_active :: bool

record Order =
  o_id :: int
  o_order_number :: string
  o_customer_id :: int
  o_service_id :: int
  o_pickup_date :: "datetime option"
  o_instructions :: "string option"
  o_total_cost :: money
  o_status :: string
  o_qr_code_path :: "string option"

record Worker =
  w_id :: int
  w_name :: string
  w_email :: "string option"
  w_token :: "string option"

record Track =
  t_id :: int
  t_order_id :: int
  t_worker_id :: "int option"
  t_action :: string
  t_note :: "string option"
  t_location :: "string option"

text \<open>The persistent store: the rows of each table, in primary-key order.\<close>

record db =
  services :: "Service list"
  customers :: "Customer list"
  orders :: "Order list"
  workers :: "Worker list"
  tracks :: "Track list"

text \<open>
  \<^verbatim>\<open>class OrderStatus(enum.Enum)\<close> of the FastAPI back end, with the name the
  \<^verbatim>\<open>Enum(OrderStatus)\<close> column stores for each member (name and value coincide).
\<close>

datatype OrderStatus = created | picked_up | processing | completed | delivered | cancelled

fun OrderStatus_name :: "OrderStatus \<Rightarrow> string" where
  "OrderStatus_name created = ''created''"
| "OrderStatus_name picked_up = ''picked_up''"
| "OrderStatus_name processing = ''processing''"
| "OrderStatus_name completed = ''completed''"
| "OrderStatus_name delivered = ''delivered''"
| "OrderStatus_name cancelled = ''cancelled''"

section \<open>Order numbers\<close>

text \<open>
  \<^verbatim>\<open>gen_order_number()\<close> returns \<^verbatim>\<open>secrets.token_hex(6)\<close>: six bytes of the operating
  system's randomness, each written as two lowercase hexadecimal digits. The random source
  is the argument \<open>rnd\<close>, an unbounded supply of bytes of which \<^verbatim>\<open>token_bytes(n)\<close>
  reads the first \<open>n\<close>.
\<close>

definition hexdigits :: string where
  "hexdigits = ''0123456789abcdef''"

definition hex_byte :: "8 word \<Rightarrow> string" where
  "hex_byte b = [hexdigits ! (unat b div 16), hexdigits ! (unat b mod 16)]"

definition hexlify :: "8 word list \<Rightarrow> string" where
  "hexlify bs = concat (map hex_byte bs)"

definition token_bytes :: "nat \<Rightarrow> (nat \<Rightarrow> 8 word) \<Rightarrow> 8 word list" where
  "token_bytes n rnd = map rnd [0..<n]"

definition token_hex :: "nat \<Rightarrow> (nat \<Rightarrow> 8 word) \<Rightarrow> string" where
  "token_hex n rnd = hexlify (token_bytes n rnd)"

definition gen_order_number :: "(nat \<Rightarrow> 8 word) \<Rightarrow> string" where
  "gen_order_number rnd = token_hex 6 rnd"

text \<open>The declared width of the column \<^verbatim>\<open>order_number = Column(String(64), ...)\<close>.\<close>

definition order_number_limit :: nat where
  "order_number_limit = 64"

section \<open>Errors and the unit of work\<close>

text \<open>
  A handler either returns a response or fails. \<open>Http code msg\<close> is an error response the
  handler builds itself (\<^verbatim>\<open>return jsonify(msg=...), code\<close> in the Flask back end,
  \<^verbatim>\<open>raise HTTPException(status_code=..., detail=...)\<close> in the FastAPI one).
  \<open>Unhandled e\<close> is an exception no handler catches, which the framework turns into a
  500 response.
\<close>

datatype exn = IntegrityError | OperationalError | QrError | LookupError

datatype error = Http nat string | Unhandled exn

fun status_code :: "error \<Rightarrow> nat" where
  "status_code (Http code msg) = code"
| "status_code (Unhandled e) = 500"

text \<open>
  The key an \<^verbatim>\<open>INSERT\<close> assigns to an \<^verbatim>\<open>autoincrement\<close> primary key: one more than
  the largest key of the table, \<open>1\<close> on an empty table.
\<close>

definition autoincrement :: "int list \<Rightarrow> int" where
  "autoincrement ids = fold max ids 0 + 1"

text \<open>\<^verbatim>\<open>UPDATE ... WHERE id = ?\<close> and \<^verbatim>\<open>DELETE ... WHERE id = ?\<close> on the row with a given key.\<close>

fun replace_row :: "('a \<Rightarrow> int) \<Rightarrow> 'a \<Rightarrow> 'a list \<Rightarrow> 'a list" where
  "replace_row key x [] = []"
| "replace_row key x (r # rs) = (if key r = key x then x # rs else r # replace_row key x rs)"

fun delete_row :: "('a \<Rightarrow> int) \<Rightarrow> int \<Rightarrow> 'a list \<Rightarrow> 'a list" where
  "delete_row key k [] = []"
| "delete_row key k (r # rs) = (if key r = k then rs else r # delete_row key k rs)"

text \<open>
  What a session holds when \<^verbatim>\<open>commit()\<close> is called: new objects (\<^verbatim>\<open>session.add\<close>),
  modified persistent objects and objects marked by \<^verbatim>\<open>session.delete\<close>.
\<close>

datatype change =
    InsertOrder Order
  | UpdateOrder Order
  | DeleteOrder Order
  | InsertTrack Track
  | UpdateWorker Worker
  | UpdateService Service

text \<open>
  One statement of the flush, with the declared constraints it can violate:
  \<^item> \<^verbatim>\<open>order_number\<close> and \<^verbatim>\<open>Service.name\<close> are \<^verbatim>\<open>unique=True\<close>;
  \<^item> deleting an order: \<^verbatim>\<open>Track.order = relationship("Order", backref="tracks")\<close> declares
    no delete cascade and \<^verbatim>\<open>tracks.order_id\<close> no \<^verbatim>\<open>ondelete\<close>, so the unit of work first
    detaches the order's tracks by setting their \<^verbatim>\<open>order_id\<close> to NULL, which the column's
    \<^verbatim>\<open>nullable=False\<close> rejects whenever there is such a track.
\<close>

fun apply_change :: "change \<Rightarrow> db \<Rightarrow> exn + db" where
  "apply_change (InsertOrder order) d =
     (if o_order_number order \<in> set (map o_order_number (orders d)) then Inl IntegrityError
      else Inr (d\<lparr>orders := orders d @ [order]\<rparr>))"
| "apply_change (UpdateOrder order) d = Inr (d\<lparr>orders := replace_row o_id order (orders d)\<rparr>)"
| "apply_change (DeleteOrder order) d =
     (if filter (\<lambda>t. t_order_id t = o_id order) (tracks d) \<noteq> [] then Inl IntegrityError
      else Inr (d\<lparr>orders := delete_row o_id (o_id order) (orders d)\<rparr>))"
| "apply_change (InsertTrack track) d = Inr (d\<lparr>tracks := tracks d @ [track]\<rparr>)"
| "apply_change (UpdateWorker worker) d =
     Inr (d\<lparr>workers := replace_row w_id worker (workers d)\<rparr>)"
| "apply_change (UpdateService service) d =
     (if filter (\<lambda>s. s_name s = s_name service \<and> s_id s \<noteq> s_id service) (services d) \<noteq> []
      then Inl IntegrityError
      else Inr (d\<lparr>services := replace_row s_id service (services d)\<rparr>))"

fun flush :: "change list \<Rightarrow> db \<Rightarrow> exn + db" where
  "flush [] d = Inr d"
| "flush (c # cs) d = (case apply_change c d of Inl e \<Rightarrow> Inl e | Inr d' \<Rightarrow> flush cs d')"

text \<open>
  \<^verbatim>\<open>db.session.commit()\<close>: one transaction. \<open>up\<close> says whether the store accepts the
  transaction at all (it is reachable); a failed statement or an unreachable store raises,
  the transaction is rolled back and the store stays as it was.
\<close>

definition commit :: "bool \<Rightarrow> change list \<Rightarrow> db \<Rightarrow> exn + db" where
  "commit up cs d = (if up then flush cs d else Inl OperationalError)"

text \<open>
  Python truthiness of an optional string (\<^verbatim>\<open>not s\<close> holds for \<^verbatim>\<open>None\<close> and \<^verbatim>\<open>""\<close>), and a
  field of a JSON body read through a marshmallow schema with \<^verbatim>\<open>allow_none=True\<close>: the key
  is absent, or \<^verbatim>\<open>null\<close>, or carries a value.
\<close>

fun truthy :: "string option \<Rightarrow> bool" where
  "truthy None = False"
| "truthy (Some s) = (s \<noteq> [])"

datatype 'a field = Absent | Null | Val 'a

fun field_get :: "'a field \<Rightarrow> 'a option" where
  "field_get Absent = None"
| "field_get Null = None"
| "field_get (Val v) = Some v"

section \<open>Label generation (app/utils/qr.py, app/utils/qr_generator.py)\<close>

text \<open>
  \<^verbatim>\<open>generate_order_qr(order_number, payload)\<close> renders the payload and saves the image
  under the QR directory; \<open>fs_ok\<close> says whether rendering and \<^verbatim>\<open>img.save(path)\<close> go
  through. Neither the function nor its callers catch the exception raised otherwise.
\<close>

record qr_payload =
  qp_order_number :: string
  qp_email :: string
  qp_service :: string

definition generate_order_qr :: "bool \<Rightarrow> string \<Rightarrow> qr_payload \<Rightarrow> exn + string" where
  "generate_order_qr fs_ok order_number payload =
     (let filename = order_number @ ''.png''
      in if fs_ok then Inr (''/static/qr/'' @ filename) else Inl QrError)"

section \<open>Flask back end (src/app/api)\<close>

text \<open>
  Each view function is a function from the store and the request to a result and the
  store afterwards. The decorators \<^verbatim>\<open>@jwt_required()\<close> and \<^verbatim>\<open>@limiter.limit\<close> run before
  the view: the view's argument \<open>customer_id\<close> is what \<^verbatim>\<open>get_jwt_identity()\<close> returns once
  they have let the request through. The arguments \<open>up\<close>, \<open>up1\<close>, \<open>up2\<close> say whether
  the store accepts the view's first and second transaction.
\<close>

subsection \<open>orders/routes.py\<close>

text \<open>
  The JSON body of \<^verbatim>\<open>POST /orders\<close> as \<^verbatim>\<open>OrderCreateSchema\<close> reads it: \<^verbatim>\<open>service_id\<close> is
  required, so a body without it fails validation.
\<close>

record OrderCreateBody =
  oc_service_id :: "int option"
  oc_pickup_date :: "datetime field"
  oc_instructions :: "string field"

record create_order_response =
  cr_id :: int
  cr_order_number :: string
  cr_qr_code_path :: "string option"

definition create_order ::
  "bool \<Rightarrow> bool \<Rightarrow> bool \<Rightarrow> (nat \<Rightarrow> 8 word) \<Rightarrow> db \<Rightarrow> int \<Rightarrow> OrderCreateBody
   \<Rightarrow> (error + create_order_response) \<times> db" where
  "create_order up1 fs_ok up2 rnd d customer_id body =
     (case oc_service_id body of
        None \<Rightarrow> (Inl (Http 400 ''Validation error''), d)
      | Some service_id \<Rightarrow>
     (case find (\<lambda>c. c_id c = customer_id) (customers d) of
        None \<Rightarrow> (Inl (Http 401 ''Invalid user''), d)
      | Some customer \<Rightarrow>
     (case find (\<lambda>s. s_id s = service_id) (services d) of
        None \<Rightarrow> (Inl (Http 400 ''Invalid service''), d)
      | Some service \<Rightarrow>
     (let order_number = gen_order_number rnd;
          total_cost = s_price service;
          order = \<lparr>o_id = autoincrement (map o_id (orders d)),
                   o_order_number = order_number,
                   o_customer_id = c_id customer,
                   o_service_id = s_id service,
                   o_pickup_date = field_get (oc_pickup_date body),
                   o_instructions = field_get (oc_instructions body),
                   o_total_cost = total_cost,
                   o_status = ''created'',
                   o_qr_code_path = None\<rparr>
      in case commit up1 [InsertOrder order] d of
           Inl e \<Rightarrow> (Inl (Unhandled e), d)
         | Inr d1 \<Rightarrow>
        (let payload = \<lparr>qp_order_number = o_order_number order,
                        qp_email = c_email customer,
                        qp_service = s_name service\<rparr>
         in case generate_order_qr fs_ok (o_order_number order) payload of
              Inl e \<Rightarrow> (Inl (Unhandled e), d1)
            | Inr qr_path \<Rightarrow>
           (let order2 = order\<lparr>o_qr_code_path := Some qr_path\<rparr>
            in case commit up2 [UpdateOrder order2] d1 of
                 Inl e \<Rightarrow> (Inl (Unhandled e), d1)
               | Inr d2 \<Rightarrow>
                   (Inr \<lparr>cr_id = o_id order2,
                         cr_order_number = o_order_number order2,
                         cr_qr_code_path = o_qr_code_path order2\<rparr>, d2)))))))"

text \<open>
  The JSON body of \<^verbatim>\<open>PUT /orders/<id>\<close> as \<^verbatim>\<open>OrderUpdateSchema\<close> reads it with
  \<^verbatim>\<open>partial=True\<close>: every key is optional and may be \<^verbatim>\<open>null\<close>; a \<^verbatim>\<open>status\<close> string must be
  one of the six the schema's \<^verbatim>\<open>OneOf\<close> validator lists.
\<close>

record OrderUpdateBody =
  ou_pickup_date :: "datetime field"
  ou_instructions :: "string field"
  ou_status :: "string field"

definition order_status_choices :: "string list" where
  "order_status_choices =
     [''created'', ''picked_up'', ''processing'', ''completed'', ''delivered'', ''cancelled'']"

definition OrderUpdateSchema_load :: "OrderUpdateBody \<Rightarrow> error + OrderUpdateBody" where
  "OrderUpdateSchema_load body =
     (case ou_status body of
        Val s \<Rightarrow> if s \<in> set order_status_choices then Inr body
                 else Inl (Http 400 ''Validation error'')
      | _ \<Rightarrow> Inr body)"

text \<open>
  \<^verbatim>\<open>if "pickup_date" in data: order.pickup_date = data["pickup_date"]\<close>, and likewise for
  \<^verbatim>\<open>instructions\<close>.
\<close>

definition set_pickup_date :: "datetime field \<Rightarrow> Order \<Rightarrow> Order" where
  "set_pickup_date f order =
     (case f of Absent \<Rightarrow> order | _ \<Rightarrow> order\<lparr>o_pickup_date := field_get f\<rparr>)"

definition set_instructions :: "string field \<Rightarrow> Order \<Rightarrow> Order" where
  "set_instructions f order =
     (case f of Absent \<Rightarrow> order | _ \<Rightarrow> order\<lparr>o_instructions := field_get f\<rparr>)"

text \<open>
  \<^verbatim>\<open>update_order\<close>. A \<^verbatim>\<open>null\<close> status is assigned like any other value and the
  \<^verbatim>\<open>UPDATE\<close> then violates the column's \<^verbatim>\<open>nullable=False\<close>.
\<close>

definition update_order ::
  "bool \<Rightarrow> db \<Rightarrow> int \<Rightarrow> int \<Rightarrow> OrderUpdateBody \<Rightarrow> (error + Order) \<times> db" where
  "update_order up d customer_id order_id body =
     (case find (\<lambda>r. o_id r = order_id) (orders d) of
        None \<Rightarrow> (Inl (Http 404 ''Not Found''), d)
      | Some order \<Rightarrow>
          if o_customer_id order \<noteq> customer_id then (Inl (Http 403 ''Forbidden''), d)
          else
     (case OrderUpdateSchema_load body of
        Inl e \<Rightarrow> (Inl e, d)
      | Inr data \<Rightarrow>
     (let order1 = set_pickup_date (ou_pickup_date data) order;
          order2 = set_instructions (ou_instructions data) order1
      in case ou_status data of
           Null \<Rightarrow> (Inl (Unhandled IntegrityError), d)
         | st \<Rightarrow>
        (let order3 = (case st of Val s \<Rightarrow> order2\<lparr>o_status := s\<rparr> | _ \<Rightarrow> order2)
         in case commit up [UpdateOrder order3] d of
              Inl e \<Rightarrow> (Inl (Unhandled e), d)
            | Inr d' \<Rightarrow> (Inr order3, d')))))"

definition delete_order :: "bool \<Rightarrow> db \<Rightarrow> int \<Rightarrow> int \<Rightarrow> (error + string) \<times> db" where
  "delete_order up d customer_id order_id =
     (case find (\<lambda>r. o_id r = order_id) (orders d) of
        None \<Rightarrow> (Inl (Http 404 ''Not Found''), d)
      | Some order \<Rightarrow>
          if o_customer_id order \<noteq> customer_id then (Inl (Http 403 ''Forbidden''), d)
          else
     (case commit up [DeleteOrder order] d of
        Inl e \<Rightarrow> (Inl (Unhandled e), d)
      | Inr d' \<Rightarrow> (Inr ''Deleted'', d')))"

subsection \<open>services/routes.py\<close>

text \<open>
  \<^verbatim>\<open>update_service\<close> copies the keys \<^verbatim>\<open>name\<close>, \<^verbatim>\<open>price\<close>, \<^verbatim>\<open>duration_minutes\<close> and
  \<^verbatim>\<open>status\<close> of the raw JSON body onto the row. The columns \<^verbatim>\<open>name\<close>, \<^verbatim>\<open>price\<close> and
  \<^verbatim>\<open>status\<close> are \<^verbatim>\<open>nullable=False\<close>, so a \<^verbatim>\<open>null\<close> for one of them fails at the commit.
  The body's \<^verbatim>\<open>status\<close> is not validated: a string that is not a name of the column's enum
  is committed as it is, and the response line, which reads \<^verbatim>\<open>service.id\<close> and
  \<^verbatim>\<open>service.name\<close> from the row reloaded after the commit, then raises \<^verbatim>\<open>LookupError\<close> on
  the stored value. The update stays committed; the caller gets the unhandled exception.
\<close>

record ServiceUpdateBody =
  su_name :: "string field"
  su_price :: "money field"
  su_duration_minutes :: "int field"
  su_status :: "string field"

definition service_status_choices :: "string list" where
  "service_status_choices = [''active'', ''inactive'']"

definition update_service ::
  "bool \<Rightarrow> db \<Rightarrow> int \<Rightarrow> ServiceUpdateBody \<Rightarrow> (error + int \<times> string) \<times> db" where
  "update_service up d service_id data =
     (case find (\<lambda>s. s_id s = service_id) (services d) of
        None \<Rightarrow> (Inl (Http 404 ''Not Found''), d)
      | Some service \<Rightarrow>
     (let service1 = (case su_name data of Val n \<Rightarrow> service\<lparr>s_name := n\<rparr> | _ \<Rightarrow> service);
          service2 = (case su_price data of Val p \<Rightarrow> service1\<lparr>s_price := p\<rparr> | _ \<Rightarrow> service1);
          service3 = (case su_duration_minutes data of
                        Absent \<Rightarrow> service2
                      | f \<Rightarrow> service2\<lparr>s_duration_minutes := field_get f\<rparr>);
          service4 = (case su_status data of Val st \<Rightarrow> service3\<lparr>s_status := st\<rparr> | _ \<Rightarrow> service3)
      in if su_name data = Null \<or> su_price data = Null \<or> su_status data = Null
         then (Inl (Unhandled IntegrityError), d)
         else
        (case commit up [UpdateService service4] d of
           Inl e \<Rightarrow> (Inl (Unhandled e), d)
         | Inr d' \<Rightarrow>
             (case su_status data of
                Val st \<Rightarrow>
                  if st \<in> set service_status_choices
                  then (Inr (s_id service4, s_name service4), d')
                  else (Inl (Unhandled LookupError), d')
              | _ \<Rightarrow> (Inr (s_id service4, s_name service4), d')))))"

subsection \<open>workers/routes.py\<close>

text \<open>
  \<^verbatim>\<open>auth.startswith("Bearer ")\<close> and \<^verbatim>\<open>auth.split(" ", 1)[1]\<close>: the first blank of such a
  header is the one after \<^verbatim>\<open>Bearer\<close>, so the token is the header without its first
  seven characters.
\<close>

definition bearer_token :: "string \<Rightarrow> string option" where
  "bearer_token auth = (if take 7 auth = ''Bearer '' then Some (drop 7 auth) else None)"

definition require_worker_token :: "db \<Rightarrow> string \<Rightarrow> error + Worker" where
  "require_worker_token d auth =
     (case bearer_token auth of
        None \<Rightarrow> Inl (Http 401 ''Missing worker token'')
      | Some token \<Rightarrow>
     (case find (\<lambda>w. w_token w = Some token) (workers d) of
        None \<Rightarrow> Inl (Http 401 ''Invalid token'')
      | Some worker \<Rightarrow> Inr worker))"

record WorkerLoginBody =
  wl_worker_id :: "int option"
  wl_password :: "string option"

record worker_login_response =
  wr_worker_token :: string
  wr_id :: int
  wr_name :: string
  wr_email :: "string option"

text \<open>
  \<^verbatim>\<open>worker_login\<close>. \<open>token\<close> is the value \<^verbatim>\<open>secrets.token_urlsafe(32)\<close> returns for this
  request. \<^verbatim>\<open>not worker_id\<close> holds for an absent key and for \<open>0\<close>. The view reads
  \<^verbatim>\<open>password\<close> into a local variable and never uses it.
\<close>

definition worker_login ::
  "bool \<Rightarrow> string \<Rightarrow> db \<Rightarrow> WorkerLoginBody \<Rightarrow> (error + worker_login_response) \<times> db" where
  "worker_login up token d data =
     (let worker_id = wl_worker_id data;
          password = wl_password data
      in case worker_id of
           None \<Rightarrow> (Inl (Http 400 ''Missing worker_id''), d)
         | Some wid \<Rightarrow>
             if wid = 0 then (Inl (Http 400 ''Missing worker_id''), d)
             else
        (case find (\<lambda>w. w_id w = wid) (workers d) of
           None \<Rightarrow> (Inl (Http 404 ''Worker not found''), d)
         | Some worker \<Rightarrow>
        (let worker' = worker\<lparr>w_token := Some token\<rparr>
         in case commit up [UpdateWorker worker'] d of
              Inl e \<Rightarrow> (Inl (Unhandled e), d)
            | Inr d' \<Rightarrow>
                (Inr \<lparr>wr_worker_token = token, wr_id = w_id worker',
                      wr_name = w_name worker', wr_email = w_email worker'\<rparr>, d'))))"

record ScanBody =
  sc_order_number :: "string option"
  sc_action :: "string option"
  sc_location :: "string option"
  sc_note :: "string option"

record scan_response =
  sr_msg :: string
  sr_track_id :: int
  sr_action :: string

text \<open>The \<^verbatim>\<open>if/elif\<close> chain of \<^verbatim>\<open>scan\<close> that sets the order's status from the action.\<close>

definition scan_status :: "string \<Rightarrow> Order \<Rightarrow> Order" where
  "scan_status action order =
     (if action = ''picked_up'' then order\<lparr>o_status := ''picked_up''\<rparr>
      else if action = ''processing'' then order\<lparr>o_status := ''processing''\<rparr>
      else if action = ''completed'' then order\<lparr>o_status := ''completed''\<rparr>
      else if action = ''delivered'' then order\<lparr>o_status := ''delivered''\<rparr>
      else order)"

text \<open>
  \<^verbatim>\<open>scan\<close>, wrapped by \<^verbatim>\<open>@require_worker_token\<close>; \<open>auth\<close> is the \<^verbatim>\<open>Authorization\<close> header
  (empty when the request has none). The modified order and the new track are written by
  the one \<^verbatim>\<open>db.session.commit()\<close>.
\<close>

definition scan :: "bool \<Rightarrow> db \<Rightarrow> string \<Rightarrow> ScanBody \<Rightarrow> (error + scan_response) \<times> db" where
  "scan up d auth data =
     (case require_worker_token d auth of
        Inl e \<Rightarrow> (Inl e, d)
      | Inr worker \<Rightarrow>
          if \<not> truthy (sc_order_number data) \<or> \<not> truthy (sc_action data)
          then (Inl (Http 400 ''Missing fields''), d)
          else
     (let order_number = the (sc_order_number data);
          action = the (sc_action data)
      in case find (\<lambda>r. o_order_number r = order_number) (orders d) of
           None \<Rightarrow> (Inl (Http 404 ''Order not found''), d)
         | Some order \<Rightarrow>
        (let track = \<lparr>t_id = autoincrement (map t_id (tracks d)),
                      t_order_id = o_id order,
                      t_worker_id = Some (w_id worker),
                      t_action = action,
                      t_note = sc_note data,
                      t_location = sc_location data\<rparr>;
             order' = scan_status action order
         in case commit up [UpdateOrder order', InsertTrack track] d of
              Inl e \<Rightarrow> (Inl (Unhandled e), d)
            | Inr d' \<Rightarrow>
                (Inr \<lparr>sr_msg = ''Scan recorded'', sr_track_id = t_id track,
                      sr_action = t_action track\<rparr>, d'))))"

section \<open>FastAPI back end (fabzclean-fastapi/app/api/v1)\<close>

text \<open>
  The request bodies are pydantic models, so a handler only runs on a body of the declared
  types. \<open>current\<close> is the customer the dependency \<^verbatim>\<open>get_current_customer\<close> resolved.
\<close>

record OrderCreate =
  p_service_id :: int
  p_pickup_date :: "datetime option"
  p_instructions :: "string option"

record WorkerScanIn =
  p_order_number :: string
  p_action :: string
  p_location :: "string option"

definition create_order_v1 ::
  "bool \<Rightarrow> bool \<Rightarrow> bool \<Rightarrow> (nat \<Rightarrow> 8 word) \<Rightarrow> db \<Rightarrow> Customer \<Rightarrow> OrderCreate
   \<Rightarrow> (error + Order) \<times> db" where
  "create_order_v1 up1 fs_ok up2 rnd d current payload =
     (case find (\<lambda>s. s_id s = p_service_id payload) (services d) of
        None \<Rightarrow> (Inl (Http 400 ''Invalid service''), d)
      | Some svc \<Rightarrow>
     (let order_number = gen_order_number rnd;
          total_cost = s_price svc;
          order = \<lparr>o_id = autoincrement (map o_id (orders d)),
                   o_order_number = order_number,
                   o_customer_id = c_id current,
                   o_service_id = s_id svc,
                   o_pickup_date = p_pickup_date payload,
                   o_instructions = p_instructions payload,
                   o_total_cost = total_cost,
                   o_status = OrderStatus_name created,
                   o_qr_code_path = None\<rparr>
      in case commit up1 [InsertOrder order] d of
           Inl e \<Rightarrow> (Inl (Unhandled e), d)
         | Inr d1 \<Rightarrow>
        (let qr_payload = \<lparr>qp_order_number = o_order_number order,
                           qp_email = c_email current,
                           qp_service = s_name svc\<rparr>
         in case generate_order_qr fs_ok (o_order_number order) qr_payload of
              Inl e \<Rightarrow> (Inl (Unhandled e), d1)
            | Inr qr_path \<Rightarrow>
           (let order2 = order\<lparr>o_qr_code_path := Some qr_path\<rparr>
            in case commit up2 [UpdateOrder order2] d1 of
                 Inl e \<Rightarrow> (Inl (Unhandled e), d1)
               | Inr d2 \<Rightarrow> (Inr order2, d2)))))"

text \<open>
  \<^verbatim>\<open>update_order\<close> of the FastAPI back end: \<^verbatim>\<open>if payload.pickup_date:\<close> and
  \<^verbatim>\<open>if payload.instructions:\<close> test truthiness, so an empty instruction string is skipped
  like an absent one.
\<close>

definition update_order_v1 ::
  "bool \<Rightarrow> db \<Rightarrow> Customer \<Rightarrow> int \<Rightarrow> OrderCreate \<Rightarrow> (error + string) \<times> db" where
  "update_order_v1 up d current order_id payload =
     (case find (\<lambda>r. o_id r = order_id) (orders d) of
        None \<Rightarrow> (Inl (Http 403 ''Forbidden''), d)
      | Some order \<Rightarrow>
          if o_customer_id order \<noteq> c_id current then (Inl (Http 403 ''Forbidden''), d)
          else
     (let order1 = (case p_pickup_date payload of
                      Some t \<Rightarrow> order\<lparr>o_pickup_date := Some t\<rparr>
                    | None \<Rightarrow> order);
          order2 = (if truthy (p_instructions payload)
                    then order1\<lparr>o_instructions := p_instructions payload\<rparr>
                    else order1)
      in case commit up [UpdateOrder order2] d of
           Inl e \<Rightarrow> (Inl (Unhandled e), d)
         | Inr d' \<Rightarrow> (Inr ''Updated'', d')))"

definition delete_order_v1 ::
  "bool \<Rightarrow> db \<Rightarrow> Customer \<Rightarrow> int \<Rightarrow> (error + string) \<times> db" where
  "delete_order_v1 up d current order_id =
     (case find (\<lambda>r. o_id r = order_id) (orders d) of
        None \<Rightarrow> (Inl (Http 403 ''Forbidden''), d)
      | Some order \<Rightarrow>
          if o_customer_id order \<noteq> c_id current then (Inl (Http 403 ''Forbidden''), d)
          else
     (case commit up [DeleteOrder order] d of
        Inl e \<Rightarrow> (Inl (Unhandled e), d)
      | Inr d' \<Rightarrow> (Inr ''Deleted'', d')))"

text \<open>The \<^verbatim>\<open>if/elif\<close> chain of the FastAPI \<^verbatim>\<open>scan\<close>: two branches only.\<close>

definition scan_status_v1 :: "string \<Rightarrow> Order \<Rightarrow> Order" where
  "scan_status_v1 action order =
     (if action = ''picked_up'' then order\<lparr>o_status := OrderStatus_name picked_up\<rparr>
      else if action = ''delivered'' then order\<lparr>o_status := OrderStatus_name delivered\<rparr>
      else order)"

definition scan_v1 ::
  "bool \<Rightarrow> db \<Rightarrow> string \<Rightarrow> WorkerScanIn \<Rightarrow> (error + scan_response) \<times> db" where
  "scan_v1 up d auth payload =
     (case bearer_token auth of
        None \<Rightarrow> (Inl (Http 401 ''Missing worker token''), d)
      | Some token \<Rightarrow>
     (case find (\<lambda>w. w_token w = Some token) (workers d) of
        None \<Rightarrow> (Inl (Http 401 ''Invalid worker token''), d)
      | Some worker \<Rightarrow>
     (case find (\<lambda>r. o_order_number r = p_order_number payload) (orders d) of
        None \<Rightarrow> (Inl (Http 404 ''Order not found''), d)
      | Some order \<Rightarrow>
     (let t = \<lparr>t_id = autoincrement (map t_id (tracks d)),
               t_order_id = o_id order,
               t_worker_id = Some (w_id worker),
               t_action = p_action payload,
               t_note = None,
               t_location = p_location payload\<rparr>;
          order' = scan_status_v1 (p_action payload) order
      in case commit up [UpdateOrder order', InsertTrack t] d of
           Inl e \<Rightarrow> (Inl (Unhandled e), d)
         | Inr d' \<Rightarrow>
             (Inr \<lparr>sr_msg = ''Scan recorded'', sr_track_id = t_id t,
                   sr_action = t_action t\<rparr>, d')))))"

text \<open>Looking a row up by its primary key, as the properties below read the store.\<close>

definition get_order :: "db \<Rightarrow> int \<Rightarrow> Order option" where
  "get_order d k = find (\<lambda>r. o_id r = k) (orders d)"

definition get_worker :: "db \<Rightarrow> int \<Rightarrow> Worker option" where
  "get_worker d k = find (\<lambda>w. w_id w = k) (workers d)"

definition get_service :: "db \<Rightarrow> int \<Rightarrow> Service option" where
  "get_service d k = find (\<lambda>s. s_id s = k) (services d)"

section \<open>Test fixtures (tests/conftest.py)\<close>

text \<open>
  The rows the test suite's fixtures insert into an empty store, used below as concrete
  inputs. The worker carries the token \<^verbatim>\<open>test_worker_scan\<close> gives it, the track is the one
  \<^verbatim>\<open>test_track_model\<close> builds, and \<open>test_rnd\<close> is one fixed outcome of the random source.
\<close>

definition test_customer :: Customer where
  "test_customer = \<lparr>c_id = 1, c_name = ''Test Customer'', c_email = ''test@example.com'',
     c_phone = Some ''1234567890'', c_password_hash = ''argon2:testpass123'',
     c_is_active = True\<rparr>"

definition test_service :: Service where
  "test_service = \<lparr>s_id = 1, s_name = ''Test Service'', s_price = 10000,
     s_duration_minutes = Some 60, s_status = ''active''\<rparr>"

definition test_order :: Order where
  "test_order = \<lparr>o_id = 1, o_order_number = ''ORD-TEST-001'', o_customer_id = 1,
     o_service_id = 1, o_pickup_date = None, o_instructions = None, o_total_cost = 10000,
     o_status = ''created'', o_qr_code_path = None\<rparr>"

definition test_worker :: Worker where
  "test_worker = \<lparr>w_id = 1, w_name = ''Test Worker'', w_email = Some ''worker@example.com'',
     w_token = Some ''test-worker-token''\<rparr>"

definition test_track :: Track where
  "test_track = \<lparr>t_id = 1, t_order_id = 1, t_worker_id = Some 1, t_action = ''picked_up'',
     t_note = None, t_location = Some ''Warehouse A''\<rparr>"

definition test_db :: db where
  "test_db = \<lparr>services = [test_service], customers = [test_customer],
     orders = [test_order], workers = [test_worker], tracks = []\<rparr>"

definition test_rnd :: "nat \<Rightarrow> 8 word" where
  "test_rnd i = of_nat (37 * i + 10)"

text \<open>
  The row both \<^verbatim>\<open>create_order\<close> handlers build before their first commit, and the row
  that commit inserts into \<open>test_db\<close> on the run with \<open>test_rnd\<close>.
\<close>

definition new_order :: "db \<Rightarrow> string \<Rightarrow> int \<Rightarrow> Service \<Rightarrow> datetime option \<Rightarrow> string option \<Rightarrow> Order" where
  "new_order d order_number customer_id service pickup_date instructions =
     \<lparr>o_id = autoincrement (map o_id (orders d)),
      o_order_number = order_number,
      o_customer_id = customer_id,
      o_service_id = s_id service,
      o_pickup_date = pickup_date,
      o_instructions = instructions,
      o_total_cost = s_price service,
      o_status = ''created'',
      o_qr_code_path = None\<rparr>"

definition test_order2 :: Order where
  "test_order2 = \<lparr>o_id = 2, o_order_number = ''0a2f54799ec3'', o_customer_id = 1,
     o_service_id = 1, o_pickup_date = None, o_instructions = Some ''Handle with care'',
     o_total_cost = 10000, o_status = ''created'', o_qr_code_path = None\<rparr>"

text \<open>The actions the spec names as lifecycle actions.\<close>

definition lifecycle_actions :: "string list" where
  "lifecycle_actions = [''picked_up'', ''processing'', ''completed'', ''delivered'']"

section \<open>Properties of the order-number generator\<close>

lemma length_hexdigits: "length hexdigits = 16"
  by (simp add: hexdigits_def)

lemma hexdigits_nth_mem: "n < 16 \<Longrightarrow> hexdigits ! n \<in> set hexdigits"
  by (simp add: length_hexdigits)

lemma hexdigits_distinct: "distinct hexdigits"
  by (simp add: hexdigits_def)

lemma hexdigits_nth_inj: "m < 16 \<Longrightarrow> n < 16 \<Longrightarrow> hexdigits ! m = hexdigits ! n \<Longrightarrow> m = n"
  using hexdigits_distinct by (simp add: nth_eq_iff_index_eq length_hexdigits)

lemma unat_byte_div: "unat (b :: 8 word) div 16 < 16"
proof -
  have "unat b < 256" using unsigned_less [of b, where ?'a = nat] by simp
  then show ?thesis by simp
qed

lemma length_hex_byte: "length (hex_byte b) = 2"
  by (simp add: hex_byte_def)

lemma set_hex_byte: "set (hex_byte b) \<subseteq> set hexdigits"
  by (simp add: hex_byte_def hexdigits_nth_mem unat_byte_div)

lemma hex_byte_inj:
  assumes "hex_byte a = hex_byte b"
  shows "a = b"
proof -
  from assms have d: "unat a div 16 = unat b div 16" and m: "unat a mod 16 = unat b mod 16"
    by (auto simp: hex_byte_def intro: hexdigits_nth_inj unat_byte_div)
  have "unat a = unat b"
    using d m by (metis div_mult_mod_eq)
  then show ?thesis by (simp add: word_unat_eq_iff)
qed

lemma length_hexlify: "length (hexlify bs) = 2 * length bs"
  by (induction bs) (simp_all add: hexlify_def length_hex_byte)

lemma set_hexlify: "set (hexlify bs) \<subseteq> set hexdigits"
  using set_hex_byte by (auto simp: hexlify_def)

lemma hexlify_inj: "length xs = length ys \<Longrightarrow> hexlify xs = hexlify ys \<Longrightarrow> xs = ys"
proof (induction xs ys rule: list_induct2)
  case Nil
  then show ?case by simp
next
  case (Cons x xs y ys)
  from Cons.prems have "hex_byte x @ hexlify xs = hex_byte y @ hexlify ys"
    by (simp add: hexlify_def)
  then have "hex_byte x = hex_byte y \<and> hexlify xs = hexlify ys"
    by (simp add: length_hex_byte)
  then show ?case using Cons.IH hex_byte_inj by simp
qed

lemma range_token_bytes: "range (token_bytes n) = {bs. length bs = n}"
proof
  show "range (token_bytes n) \<subseteq> {bs. length bs = n}"
    by (auto simp: token_bytes_def)
  show "{bs. length bs = n} \<subseteq> range (token_bytes n)"
  proof
    fix bs :: "8 word list"
    assume "bs \<in> {bs. length bs = n}"
    then have "token_bytes n (\<lambda>i. bs ! i) = bs"
      by (auto simp: token_bytes_def intro: nth_equalityI)
    then show "bs \<in> range (token_bytes n)" by (metis rangeI)
  qed
qed

lemma card_bytes: "card {bs :: 8 word list. length bs = n} = 256 ^ n"
  using card_lists_length_eq [of "UNIV :: 8 word set" n] by (simp add: card_word)

lemma card_range_token_hex: "card (range (token_hex n)) = 256 ^ n"
proof -
  have "range (token_hex n) = hexlify ` {bs. length bs = n}"
    unfolding range_token_bytes [symmetric] by (auto simp: token_hex_def)
  moreover have "inj_on hexlify {bs. length bs = n}"
    by (auto intro!: inj_onI hexlify_inj)
  ultimately show ?thesis by (simp add: card_image card_bytes)
qed

text \<open>
  Claim C9. Whatever the random source yields, \<open>gen_order_number\<close> returns the hex encoding
  of six bytes: a string of exactly 12 characters, each a lowercase hexadecimal digit;
  it is never empty and fits the 64-character \<^verbatim>\<open>order_number\<close> column; and the values the
  generator can return are exactly \<open>2 ^ 48\<close> many.
\<close>

theorem gen_order_number_format:
  "length (gen_order_number rnd) = 12 \<and>
   set (gen_order_number rnd) \<subseteq> set hexdigits \<and>
   gen_order_number rnd = hexlify (map rnd [0..<6]) \<and>
   gen_order_number rnd \<noteq> [] \<and>
   length (gen_order_number rnd) \<le> order_number_limit \<and>
   card (range gen_order_number) = 2 ^ 48"
proof -
  have l: "length (gen_order_number rnd) = 12"
    by (simp add: gen_order_number_def token_hex_def token_bytes_def length_hexlify)
  have c: "card (range gen_order_number) = 2 ^ 48"
  proof -
    have "gen_order_number = token_hex 6" by (simp add: gen_order_number_def fun_eq_iff)
    then show ?thesis using card_range_token_hex [of 6] by simp
  qed
  have ne: "gen_order_number rnd \<noteq> []"
    using l by (cases "gen_order_number rnd") simp_all
  have s: "set (gen_order_number rnd) \<subseteq> set hexdigits"
    by (simp add: gen_order_number_def token_hex_def set_hexlify)
  have h: "gen_order_number rnd = hexlify (map rnd [0..<6])"
    by (simp add: gen_order_number_def token_hex_def token_bytes_def)
  have b: "length (gen_order_number rnd) \<le> order_number_limit"
    by (simp add: l order_number_limit_def)
  from l s h ne b c show ?thesis by (intro conjI)
qed

section \<open>Lemmas about the store\<close>

lemma fold_max_ge: "(a::int) \<le> fold max ids a"
  by (induction ids arbitrary: a) (auto intro: order_trans [OF max.cobounded2])

lemma fold_max_mem: "k \<in> set ids \<Longrightarrow> (k::int) \<le> fold max ids a"
proof (induction ids arbitrary: a)
  case Nil
  then show ?case by simp
next
  case (Cons x xs)
  show ?case
  proof (cases "k = x")
    case True
    have "x \<le> max x a" by simp
    also have "\<dots> \<le> fold max xs (max x a)" by (rule fold_max_ge)
    finally show ?thesis using True by simp
  next
    case False
    with Cons show ?thesis by simp
  qed
qed

lemma autoincrement_fresh: "k \<in> set ids \<Longrightarrow> k < autoincrement ids"
  using fold_max_mem [of k ids 0] by (simp add: autoincrement_def)

lemma autoincrement_pos: "0 < autoincrement ids"
  using fold_max_ge [of 0 ids] by (simp add: autoincrement_def)

lemma find_replace_row_same:
  "find (\<lambda>r. key r = key x) xs = Some y \<Longrightarrow> find (\<lambda>r. key r = key x) (replace_row key x xs) = Some x"
  by (induction xs) (auto split: if_splits)

lemma find_replace_row_other:
  "k \<noteq> key x \<Longrightarrow> find (\<lambda>r. key r = k) (replace_row key x xs) = find (\<lambda>r. key r = k) xs"
  by (induction xs) auto

lemma find_key_Some: "find (\<lambda>r. key r = k) xs = Some y \<Longrightarrow> key y = k \<and> y \<in> set xs"
  by (induction xs) (auto split: if_splits)

lemma find_append_new:
  "find P xs = None \<Longrightarrow> find P (xs @ [x]) = (if P x then Some x else None)"
  by (induction xs) (auto split: if_splits)

lemma find_append_old:
  "find P xs = Some y \<Longrightarrow> find P (xs @ zs) = Some y"
  by (induction xs) (auto split: if_splits)

lemma find_fresh_None:
  "find (\<lambda>r. key r = autoincrement (map key xs)) xs = None"
proof -
  have "\<And>r. r \<in> set xs \<Longrightarrow> key r \<noteq> autoincrement (map key xs)"
    using autoincrement_fresh [of _ "map key xs"] by fastforce
  then show ?thesis by (simp add: find_None_iff)
qed

lemma replace_row_append_fresh:
  "find (\<lambda>r. key r = key x) xs = None \<Longrightarrow> key y = key x \<Longrightarrow>
   replace_row key y (xs @ [x]) = xs @ [y]"
  by (induction xs) (auto split: if_splits)

lemma length_replace_row: "length (replace_row key x xs) = length xs"
  by (induction xs) auto

lemma bearer_of_require:
  "require_worker_token d auth = Inr worker \<Longrightarrow>
   \<exists>token. bearer_token auth = Some token \<and> find (\<lambda>w. w_token w = Some token) (workers d) = Some worker"
  by (auto simp: require_worker_token_def split: option.splits)

section \<open>Concrete runs used below\<close>

lemma test_gen: "gen_order_number test_rnd = ''0a2f54799ec3''"
  by (simp add: gen_order_number_def token_hex_def token_bytes_def hexlify_def hex_byte_def
      hexdigits_def upt_rec test_rnd_def)

lemma test_auth: "require_worker_token test_db ''Bearer test-worker-token'' = Inr test_worker"
  by (simp add: require_worker_token_def bearer_token_def test_db_def test_worker_def)

section \<open>Error paths of scan and create order\<close>

text \<open>
  Claim C7. A scan by an authenticated worker that carries both required fields and whose
  order number matches no order fails with 404 "Order not found", in the Flask and in the
  FastAPI back end, and the store afterwards is the store before: no Track row is created
  and nothing else changes.
\<close>

theorem scan_unknown_order_not_found:
  assumes auth: "require_worker_token d auth = Inr worker"
    and num: "sc_order_number data = Some n" "n \<noteq> []"
    and act: "truthy (sc_action data)"
    and pay: "p_order_number payload = n"
    and unknown: "find (\<lambda>r. o_order_number r = n) (orders d) = None"
  shows "scan up d auth data = (Inl (Http 404 ''Order not found''), d) \<and>
         scan_v1 up d auth payload = (Inl (Http 404 ''Order not found''), d)"
proof -
  from bearer_of_require [OF auth] obtain token where
    tok: "bearer_token auth = Some token"
      "find (\<lambda>w. w_token w = Some token) (workers d) = Some worker" by blast
  have 1: "scan up d auth data = (Inl (Http 404 ''Order not found''), d)"
    using auth num act unknown by (simp add: scan_def)
  have 2: "scan_v1 up d auth payload = (Inl (Http 404 ''Order not found''), d)"
    using tok pay unknown by (simp add: scan_v1_def)
  from 1 2 show ?thesis by simp
qed

theorem scan_unknown_order_not_found_witness:
  "scan True test_db ''Bearer test-worker-token''
     \<lparr>sc_order_number = Some ''nope'', sc_action = Some ''picked_up'',
      sc_location = None, sc_note = None\<rparr> = (Inl (Http 404 ''Order not found''), test_db) \<and>
   scan_v1 True test_db ''Bearer test-worker-token''
     \<lparr>p_order_number = ''nope'', p_action = ''picked_up'', p_location = None\<rparr>
     = (Inl (Http 404 ''Order not found''), test_db)"
proof -
  have u: "find (\<lambda>r. o_order_number r = ''nope'') (orders test_db) = None"
    by (simp add: test_db_def test_order_def)
  show ?thesis
    using scan_unknown_order_not_found [OF test_auth _ _ _ _ u, of
        "\<lparr>sc_order_number = Some ''nope'', sc_action = Some ''picked_up'',
          sc_location = None, sc_note = None\<rparr>"
        "\<lparr>p_order_number = ''nope'', p_action = ''picked_up'', p_location = None\<rparr>" True]
    by simp
qed

text \<open>
  Claim C8. A create-order request by an existing customer whose service id matches no
  service fails with 400 "Invalid service" (the spec's InvalidReference), in both back ends,
  and the store afterwards is the store before: no order row is persisted.
\<close>

theorem create_order_invalid_service:
  assumes cust: "find (\<lambda>c. c_id c = customer_id) (customers d) = Some customer"
    and sid: "oc_service_id body = Some service_id" "p_service_id payload = service_id"
    and unknown: "find (\<lambda>s. s_id s = service_id) (services d) = None"
  shows "create_order up1 fs_ok up2 rnd d customer_id body = (Inl (Http 400 ''Invalid service''), d) \<and>
         create_order_v1 up1 fs_ok up2 rnd d current payload = (Inl (Http 400 ''Invalid service''), d)"
  using assms by (simp add: create_order_def create_order_v1_def)

theorem create_order_invalid_service_witness:
  "create_order True True True test_rnd test_db 1
     \<lparr>oc_service_id = Some 7, oc_pickup_date = Absent, oc_instructions = Absent\<rparr>
     = (Inl (Http 400 ''Invalid service''), test_db) \<and>
   create_order_v1 True True True test_rnd test_db test_customer
     \<lparr>p_service_id = 7, p_pickup_date = None, p_instructions = None\<rparr>
     = (Inl (Http 400 ''Invalid service''), test_db)"
proof -
  have c: "find (\<lambda>c. c_id c = 1) (customers test_db) = Some test_customer"
    by (simp add: test_db_def test_customer_def)
  have u: "find (\<lambda>s. s_id s = 7) (services test_db) = None"
    by (simp add: test_db_def test_service_def)
  show ?thesis
    using create_order_invalid_service [OF c _ _ u, of
        "\<lparr>oc_service_id = Some 7, oc_pickup_date = Absent, oc_instructions = Absent\<rparr>"
        "\<lparr>p_service_id = 7, p_pickup_date = None, p_instructions = None\<rparr>"
        True True True test_rnd test_customer]
    by simp
qed

section \<open>Worker login\<close>

text \<open>
  Claim C10. For an existing worker id (primary keys are assigned from 1, so the id is not
  0) the login succeeds whatever the password field holds: with the store reachable it
  answers with the freshly drawn token and stores that token on the worker's row; and two
  requests that differ only in the password have the same outcome, response and store
  alike.
\<close>

theorem worker_login_ignores_password:
  assumes w: "get_worker d wid = Some worker" and nz: "wid \<noteq> 0"
    and b: "wl_worker_id data = Some wid"
  shows "worker_login True token d (data\<lparr>wl_password := p\<rparr>) =
           (Inr \<lparr>wr_worker_token = token, wr_id = wid, wr_name = w_name worker,
                 wr_email = w_email worker\<rparr>,
            d\<lparr>workers := replace_row w_id (worker\<lparr>w_token := Some token\<rparr>) (workers d)\<rparr>) \<and>
         get_worker (snd (worker_login True token d (data\<lparr>wl_password := p\<rparr>))) wid =
           Some (worker\<lparr>w_token := Some token\<rparr>) \<and>
         worker_login up token d (data\<lparr>wl_password := p\<rparr>) =
           worker_login up token d (data\<lparr>wl_password := p'\<rparr>)"
proof -
  from w have f: "find (\<lambda>w. w_id w = wid) (workers d) = Some worker"
    by (simp add: get_worker_def)
  from find_key_Some [OF f] have k: "w_id worker = wid" by simp
  have 1: "worker_login True token d (data\<lparr>wl_password := p\<rparr>) =
           (Inr \<lparr>wr_worker_token = token, wr_id = wid, wr_name = w_name worker,
                 wr_email = w_email worker\<rparr>,
            d\<lparr>workers := replace_row w_id (worker\<lparr>w_token := Some token\<rparr>) (workers d)\<rparr>)"
    using f nz b k by (simp add: worker_login_def commit_def)
  have "find (\<lambda>r. w_id r = w_id (worker\<lparr>w_token := Some token\<rparr>))
          (replace_row w_id (worker\<lparr>w_token := Some token\<rparr>) (workers d))
        = Some (worker\<lparr>w_token := Some token\<rparr>)"
    by (rule find_replace_row_same [where y = worker]) (simp add: f k)
  then have 2: "get_worker (snd (worker_login True token d (data\<lparr>wl_password := p\<rparr>))) wid =
           Some (worker\<lparr>w_token := Some token\<rparr>)"
    by (simp add: 1 get_worker_def k)
  have 3: "worker_login up token d (data\<lparr>wl_password := p\<rparr>) =
           worker_login up token d (data\<lparr>wl_password := p'\<rparr>)"
    by (simp add: worker_login_def)
  from 1 2 3 show ?thesis by (intro conjI)
qed

theorem worker_login_ignores_password_witness:
  "worker_login True ''tok'' test_db \<lparr>wl_worker_id = Some 1, wl_password = Some ''wrong''\<rparr> =
     (Inr \<lparr>wr_worker_token = ''tok'', wr_id = 1, wr_name = ''Test Worker'',
           wr_email = Some ''worker@example.com''\<rparr>,
      test_db\<lparr>workers := [test_worker\<lparr>w_token := Some ''tok''\<rparr>]\<rparr>) \<and>
   worker_login True ''tok'' test_db \<lparr>wl_worker_id = Some 1, wl_password = Some ''wrong''\<rparr> =
   worker_login True ''tok'' test_db \<lparr>wl_worker_id = Some 1, wl_password = None\<rparr>"
proof -
  have w: "get_worker test_db 1 = Some test_worker"
    by (simp add: get_worker_def test_db_def test_worker_def)
  have nz: "(1::int) \<noteq> 0" by simp
  have b: "wl_worker_id \<lparr>wl_worker_id = Some 1, wl_password = None\<rparr> = Some 1" by simp
  note T = worker_login_ignores_password [OF w nz b, where p = "Some ''wrong''"
      and token = "''tok''" and up = True and p' = None]
  have a: "worker_login True ''tok'' test_db \<lparr>wl_worker_id = Some 1, wl_password = Some ''wrong''\<rparr> =
     (Inr \<lparr>wr_worker_token = ''tok'', wr_id = 1, wr_name = ''Test Worker'',
           wr_email = Some ''worker@example.com''\<rparr>,
      test_db\<lparr>workers := [test_worker\<lparr>w_token := Some ''tok''\<rparr>]\<rparr>)"
    using T [THEN conjunct1] by (simp add: test_worker_def test_db_def)
  have c: "worker_login True ''tok'' test_db \<lparr>wl_worker_id = Some 1, wl_password = Some ''wrong''\<rparr> =
   worker_login True ''tok'' test_db \<lparr>wl_worker_id = Some 1, wl_password = None\<rparr>"
    using T [THEN conjunct2, THEN conjunct2] by simp
  from a c show ?thesis by (rule conjI)
qed

section \<open>Creating an order\<close>

lemma new_row_lookup:
  assumes "key x = autoincrement (map key xs)" "key y = key x"
  shows "replace_row key y (xs @ [x]) = xs @ [y]"
    and "find (\<lambda>r. key r = key x) (xs @ [y]) = Some y"
    and "find (\<lambda>r. key r = key x) xs = None"
proof -
  have n: "find (\<lambda>r. key r = key x) xs = None"
    using find_fresh_None [of key xs] assms(1) by simp
  then show "find (\<lambda>r. key r = key x) xs = None" .
  from n show "replace_row key y (xs @ [x]) = xs @ [y]"
    using assms(2) by (rule replace_row_append_fresh)
  from n show "find (\<lambda>r. key r = key x) (xs @ [y]) = Some y"
    using assms(2) by (simp add: find_append_new)
qed

text \<open>The outcomes of \<open>create_order\<close>, branch by branch.\<close>

lemma create_order_cases:
  "create_order up1 fs_ok up2 rnd d customer_id body =
     (case oc_service_id body of
        None \<Rightarrow> (Inl (Http 400 ''Validation error''), d)
      | Some service_id \<Rightarrow>
     (case find (\<lambda>c. c_id c = customer_id) (customers d) of
        None \<Rightarrow> (Inl (Http 401 ''Invalid user''), d)
      | Some customer \<Rightarrow>
     (case find (\<lambda>s. s_id s = service_id) (services d) of
        None \<Rightarrow> (Inl (Http 400 ''Invalid service''), d)
      | Some service \<Rightarrow>
     (let order = new_order d (gen_order_number rnd) (c_id customer) service
                    (field_get (oc_pickup_date body)) (field_get (oc_instructions body));
          d1 = d\<lparr>orders := orders d @ [order]\<rparr>;
          order2 = order\<lparr>o_qr_code_path := Some (''/static/qr/'' @ gen_order_number rnd @ ''.png'')\<rparr>
      in if \<not> up1 then (Inl (Unhandled OperationalError), d)
         else if gen_order_number rnd \<in> set (map o_order_number (orders d))
         then (Inl (Unhandled IntegrityError), d)
         else if \<not> fs_ok then (Inl (Unhandled QrError), d1)
         else if \<not> up2 then (Inl (Unhandled OperationalError), d1)
         else (Inr \<lparr>cr_id = o_id order, cr_order_number = gen_order_number rnd,
                     cr_qr_code_path = o_qr_code_path order2\<rparr>,
               d\<lparr>orders := orders d @ [order2]\<rparr>)))))"
proof -
  have r: "\<And>order y. o_id order = autoincrement (map o_id (orders d)) \<Longrightarrow> o_id y = o_id order \<Longrightarrow>
     replace_row o_id y (orders d @ [order]) = orders d @ [y]"
    by (rule new_row_lookup(1))
  show ?thesis
    by (simp add: create_order_def new_order_def commit_def generate_order_qr_def Let_def r
        split: option.splits)
qed

lemma create_order_v1_cases:
  "create_order_v1 up1 fs_ok up2 rnd d current payload =
     (case find (\<lambda>s. s_id s = p_service_id payload) (services d) of
        None \<Rightarrow> (Inl (Http 400 ''Invalid service''), d)
      | Some svc \<Rightarrow>
     (let order = new_order d (gen_order_number rnd) (c_id current) svc
                    (p_pickup_date payload) (p_instructions payload);
          d1 = d\<lparr>orders := orders d @ [order]\<rparr>;
          order2 = order\<lparr>o_qr_code_path := Some (''/static/qr/'' @ gen_order_number rnd @ ''.png'')\<rparr>
      in if \<not> up1 then (Inl (Unhandled OperationalError), d)
         else if gen_order_number rnd \<in> set (map o_order_number (orders d))
         then (Inl (Unhandled IntegrityError), d)
         else if \<not> fs_ok then (Inl (Unhandled QrError), d1)
         else if \<not> up2 then (Inl (Unhandled OperationalError), d1)
         else (Inr order2, d\<lparr>orders := orders d @ [order2]\<rparr>)))"
proof -
  have r: "\<And>order y. o_id order = autoincrement (map o_id (orders d)) \<Longrightarrow> o_id y = o_id order \<Longrightarrow>
     replace_row o_id y (orders d @ [order]) = orders d @ [y]"
    by (rule new_row_lookup(1))
  show ?thesis
    by (simp add: create_order_v1_def new_order_def commit_def generate_order_qr_def Let_def r
        split: option.splits)
qed

lemma update_service_orders: "orders (snd (update_service up d service_id data)) = orders d"
  by (auto simp: update_service_def commit_def Let_def split: option.splits field.splits)

text \<open>
  A run of \<open>update_service\<close> on the fixtures with a status that is no name of the enum:
  the value is committed and the request ends with the unhandled \<open>LookupError\<close>.
\<close>

lemma test_update_service_unknown_status:
  "update_service True test_db 1
     \<lparr>su_name = Absent, su_price = Absent, su_duration_minutes = Absent,
      su_status = Val ''archived''\<rparr> =
   (Inl (Unhandled LookupError),
    test_db\<lparr>services := [test_service\<lparr>s_status := ''archived''\<rparr>]\<rparr>)"
  by (simp add: update_service_def commit_def test_db_def test_service_def
      service_status_choices_def)

lemma create_order_success:
  assumes "create_order up1 fs_ok up2 rnd d customer_id body = (Inr resp, d1)"
  shows "\<exists>service order. oc_service_id body = Some (s_id service) \<and>
           get_service d (s_id service) = Some service \<and>
           get_order d (cr_id resp) = None \<and>
           get_order d1 (cr_id resp) = Some order \<and>
           o_service_id order = s_id service \<and>
           o_total_cost order = s_price service"
proof -
  from assms obtain service_id customer service where
    b: "oc_service_id body = Some service_id"
    and s: "find (\<lambda>s. s_id s = service_id) (services d) = Some service"
    and c: "find (\<lambda>c. c_id c = customer_id) (customers d) = Some customer"
    by (auto simp: create_order_cases split: option.splits)
  define order where "order = new_order d (gen_order_number rnd) (c_id customer) service
                    (field_get (oc_pickup_date body)) (field_get (oc_instructions body))"
  define order2 where
    "order2 = order\<lparr>o_qr_code_path := Some (''/static/qr/'' @ gen_order_number rnd @ ''.png'')\<rparr>"
  from assms b s c have r: "cr_id resp = o_id order" and d1: "d1 = d\<lparr>orders := orders d @ [order2]\<rparr>"
    by (auto simp: create_order_cases Let_def order_def order2_def split: if_splits)
  have k: "o_id order = autoincrement (map o_id (orders d))" "o_id order2 = o_id order"
    by (simp_all add: order_def order2_def new_order_def)
  from find_key_Some [OF s] have sid: "s_id service = service_id" by simp
  have "get_order d (cr_id resp) = None"
    using new_row_lookup(3) [OF k] by (simp add: get_order_def r)
  moreover have "get_order d1 (cr_id resp) = Some order2"
    using new_row_lookup(2) [OF k] by (simp add: get_order_def r d1)
  moreover have "o_service_id order2 = s_id service" "o_total_cost order2 = s_price service"
    by (simp_all add: order_def order2_def new_order_def)
  moreover have "get_service d (s_id service) = Some service"
    using s sid by (simp add: get_service_def)
  ultimately show ?thesis using b sid by blast
qed

lemma create_order_v1_success:
  assumes "create_order_v1 up1 fs_ok up2 rnd d current payload = (Inr order', d2)"
  shows "\<exists>svc. get_service d (p_service_id payload) = Some svc \<and>
           get_order d (o_id order') = None \<and>
           get_order d2 (o_id order') = Some order' \<and>
           o_service_id order' = p_service_id payload \<and>
           o_total_cost order' = s_price svc"
proof -
  from assms obtain svc where
    s: "find (\<lambda>s. s_id s = p_service_id payload) (services d) = Some svc"
    by (auto simp: create_order_v1_cases split: option.splits)
  define order where "order = new_order d (gen_order_number rnd) (c_id current) svc
                    (p_pickup_date payload) (p_instructions payload)"
  define order2 where
    "order2 = order\<lparr>o_qr_code_path := Some (''/static/qr/'' @ gen_order_number rnd @ ''.png'')\<rparr>"
  from assms s have r: "order' = order2" and d2: "d2 = d\<lparr>orders := orders d @ [order2]\<rparr>"
    by (auto simp: create_order_v1_cases Let_def order_def order2_def split: if_splits)
  have k: "o_id order = autoincrement (map o_id (orders d))" "o_id order2 = o_id order"
    by (simp_all add: order_def order2_def new_order_def)
  from find_key_Some [OF s] have sid: "s_id svc = p_service_id payload" by simp
  have "get_order d (o_id order') = None"
    using new_row_lookup(3) [OF k] by (simp add: get_order_def r k)
  moreover have "get_order d2 (o_id order') = Some order'"
    using new_row_lookup(2) [OF k] by (simp add: get_order_def r d2 k)
  moreover have "o_service_id order' = p_service_id payload" "o_total_cost order' = s_price svc"
    by (simp_all add: r order_def order2_def new_order_def sid)
  moreover have "get_service d (p_service_id payload) = Some svc"
    using s by (simp add: get_service_def)
  ultimately show ?thesis by blast
qed

lemma test_new_order:
  "new_order test_db (gen_order_number test_rnd) 1 test_service None (Some ''Handle with care'')
   = test_order2"
  by (simp add: new_order_def test_gen test_db_def test_order_def test_service_def
      test_order2_def autoincrement_def)

lemma test_create_order:
  "create_order True fs_ok True test_rnd test_db 1
     \<lparr>oc_service_id = Some 1, oc_pickup_date = Absent, oc_instructions = Val ''Handle with care''\<rparr>
   = (if fs_ok
      then (Inr \<lparr>cr_id = 2, cr_order_number = ''0a2f54799ec3'',
                 cr_qr_code_path = Some ''/static/qr/0a2f54799ec3.png''\<rparr>,
            test_db\<lparr>orders := [test_order,
              test_order2\<lparr>o_qr_code_path := Some ''/static/qr/0a2f54799ec3.png''\<rparr>]\<rparr>)
      else (Inl (Unhandled QrError), test_db\<lparr>orders := [test_order, test_order2]\<rparr>))"
proof -
  have c: "find (\<lambda>c. c_id c = 1) (customers test_db) = Some test_customer"
    by (simp add: test_db_def test_customer_def)
  have s: "find (\<lambda>s. s_id s = 1) (services test_db) = Some test_service"
    by (simp add: test_db_def test_service_def)
  have o: "orders test_db = [test_order]" by (simp add: test_db_def)
  have i: "c_id test_customer = 1" by (simp add: test_customer_def)
  have n: "''0a2f54799ec3'' \<noteq> o_order_number test_order" by (simp add: test_order_def)
  have k: "o_id test_order2 = 2" by (simp add: test_order2_def)
  show ?thesis
    unfolding create_order_cases
    by (simp add: c s i Let_def test_new_order [unfolded test_gen] test_gen o n k)
qed

lemma test_create_order_v1:
  "create_order_v1 True fs_ok True test_rnd test_db test_customer
     \<lparr>p_service_id = 1, p_pickup_date = None, p_instructions = Some ''Handle with care''\<rparr>
   = (if fs_ok
      then (Inr (test_order2\<lparr>o_qr_code_path := Some ''/static/qr/0a2f54799ec3.png''\<rparr>),
            test_db\<lparr>orders := [test_order,
              test_order2\<lparr>o_qr_code_path := Some ''/static/qr/0a2f54799ec3.png''\<rparr>]\<rparr>)
      else (Inl (Unhandled QrError), test_db\<lparr>orders := [test_order, test_order2]\<rparr>))"
proof -
  have s: "find (\<lambda>s. s_id s = 1) (services test_db) = Some test_service"
    by (simp add: test_db_def test_service_def)
  have o: "orders test_db = [test_order]" by (simp add: test_db_def)
  have i: "c_id test_customer = 1" by (simp add: test_customer_def)
  have n: "''0a2f54799ec3'' \<noteq> o_order_number test_order" by (simp add: test_order_def)
  show ?thesis
    unfolding create_order_v1_cases
    by (simp add: s i Let_def test_new_order [unfolded test_gen] test_gen o n)
qed

text \<open>
  Claim C3. When \<open>create_order\<close> succeeds (either back end), the order it created is a new
  row whose \<open>total_cost\<close> is the price the referenced service has in the store the request
  ran on. \<open>update_service\<close>, whatever its body and outcome, leaves the orders table as it
  was, so a later price edit changes no existing order's \<open>total_cost\<close>.
\<close>

theorem total_cost_snapshot:
  "(create_order up1 fs_ok up2 rnd d customer_id body = (Inr resp, d1) \<longrightarrow>
      (\<exists>service order. oc_service_id body = Some (s_id service) \<and>
           get_service d (s_id service) = Some service \<and>
           get_order d (cr_id resp) = None \<and>
           get_order d1 (cr_id resp) = Some order \<and>
           o_service_id order = s_id service \<and>
           o_total_cost order = s_price service)) \<and>
   (create_order_v1 up1 fs_ok up2 rnd d current payload = (Inr order', d2) \<longrightarrow>
      (\<exists>svc. get_service d (p_service_id payload) = Some svc \<and>
           get_order d (o_id order') = None \<and>
           get_order d2 (o_id order') = Some order' \<and>
           o_service_id order' = p_service_id payload \<and>
           o_total_cost order' = s_price svc)) \<and>
   orders (snd (update_service up d' service_id data)) = orders d'"
proof (intro conjI impI)
  assume "create_order up1 fs_ok up2 rnd d customer_id body = (Inr resp, d1)"
  then show "\<exists>service order. oc_service_id body = Some (s_id service) \<and>
           get_service d (s_id service) = Some service \<and>
           get_order d (cr_id resp) = None \<and>
           get_order d1 (cr_id resp) = Some order \<and>
           o_service_id order = s_id service \<and>
           o_total_cost order = s_price service"
    by (rule create_order_success)
next
  assume "create_order_v1 up1 fs_ok up2 rnd d current payload = (Inr order', d2)"
  then show "\<exists>svc. get_service d (p_service_id payload) = Some svc \<and>
           get_order d (o_id order') = None \<and>
           get_order d2 (o_id order') = Some order' \<and>
           o_service_id order' = p_service_id payload \<and>
           o_total_cost order' = s_price svc"
    by (rule create_order_v1_success)
next
  show "orders (snd (update_service up d' service_id data)) = orders d'"
    by (rule update_service_orders)
qed

theorem total_cost_snapshot_witness:
  "(\<exists>service order. get_service test_db 1 = Some service \<and>
      get_order (test_db\<lparr>orders := [test_order,
              test_order2\<lparr>o_qr_code_path := Some ''/static/qr/0a2f54799ec3.png''\<rparr>]\<rparr>) 2 = Some order \<and>
      o_total_cost order = s_price service) \<and>
   (\<exists>svc. get_service test_db 1 = Some svc \<and> o_total_cost test_order2 = s_price svc) \<and>
   orders (snd (update_service True test_db 1
      \<lparr>su_name = Absent, su_price = Val 25000, su_duration_minutes = Absent, su_status = Absent\<rparr>))
     = orders test_db"
proof -
  note T = total_cost_snapshot [where ?up1.0 = True and fs_ok = True and ?up2.0 = True
      and rnd = test_rnd and d = test_db and customer_id = 1 and current = test_customer
      and body = "\<lparr>oc_service_id = Some 1, oc_pickup_date = Absent,
                     oc_instructions = Val ''Handle with care''\<rparr>"
      and payload = "\<lparr>p_service_id = 1, p_pickup_date = None,
                        p_instructions = Some ''Handle with care''\<rparr>"
      and resp = "\<lparr>cr_id = 2, cr_order_number = ''0a2f54799ec3'',
                 cr_qr_code_path = Some ''/static/qr/0a2f54799ec3.png''\<rparr>"
      and ?d1.0 = "test_db\<lparr>orders := [test_order,
              test_order2\<lparr>o_qr_code_path := Some ''/static/qr/0a2f54799ec3.png''\<rparr>]\<rparr>"
      and order' = "test_order2\<lparr>o_qr_code_path := Some ''/static/qr/0a2f54799ec3.png''\<rparr>"
      and ?d2.0 = "test_db\<lparr>orders := [test_order,
              test_order2\<lparr>o_qr_code_path := Some ''/static/qr/0a2f54799ec3.png''\<rparr>]\<rparr>"
      and up = True and d' = test_db and service_id = 1
      and data = "\<lparr>su_name = Absent, su_price = Val 25000, su_duration_minutes = Absent,
                     su_status = Absent\<rparr>"]
  have a: "\<exists>service order. get_service test_db 1 = Some service \<and>
      get_order (test_db\<lparr>orders := [test_order,
              test_order2\<lparr>o_qr_code_path := Some ''/static/qr/0a2f54799ec3.png''\<rparr>]\<rparr>) 2 = Some order \<and>
      o_total_cost order = s_price service"
    using T [THEN conjunct1] test_create_order [of True] by auto
  have b: "\<exists>svc. get_service test_db 1 = Some svc \<and> o_total_cost test_order2 = s_price svc"
    using T [THEN conjunct2, THEN conjunct1] test_create_order_v1 [of True] by auto
  from a b T [THEN conjunct2, THEN conjunct2] show ?thesis by (intro conjI)
qed

text \<open>
  Claim C4, as amended. When label generation fails during order creation (first commit
  accepted, order number not yet used), the order row exists afterwards, with no label path:
  it was committed before the label was requested. The failure is not caught: the handler
  ends with the unhandled exception, a 500 response, in both back ends; no successful
  response carrying a warning is produced.
\<close>

theorem qr_failure_propagates:
  assumes cust: "find (\<lambda>c. c_id c = customer_id) (customers d) = Some customer"
    and sid: "oc_service_id body = Some service_id" "p_service_id payload = service_id"
    and svc: "find (\<lambda>s. s_id s = service_id) (services d) = Some service"
    and fresh: "gen_order_number rnd \<notin> set (map o_order_number (orders d))"
  shows "create_order True False up2 rnd d customer_id body =
           (Inl (Unhandled QrError),
            d\<lparr>orders := orders d @ [new_order d (gen_order_number rnd) customer_id service
               (field_get (oc_pickup_date body)) (field_get (oc_instructions body))]\<rparr>) \<and>
         create_order_v1 True False up2 rnd d current payload =
           (Inl (Unhandled QrError),
            d\<lparr>orders := orders d @ [new_order d (gen_order_number rnd) (c_id current) service
               (p_pickup_date payload) (p_instructions payload)]\<rparr>) \<and>
         status_code (Unhandled QrError) = 500 \<and>
         o_qr_code_path (new_order d (gen_order_number rnd) cid service pd ins) = None \<and>
         get_order (snd (create_order True False up2 rnd d customer_id body))
             (autoincrement (map o_id (orders d))) =
           Some (new_order d (gen_order_number rnd) customer_id service
               (field_get (oc_pickup_date body)) (field_get (oc_instructions body)))"
proof -
  from find_key_Some [OF cust] have c: "c_id customer = customer_id" by simp
  have 1: "create_order True False up2 rnd d customer_id body =
           (Inl (Unhandled QrError),
            d\<lparr>orders := orders d @ [new_order d (gen_order_number rnd) customer_id service
               (field_get (oc_pickup_date body)) (field_get (oc_instructions body))]\<rparr>)"
    using cust sid svc fresh c by (simp add: create_order_cases Let_def)
  have 2: "create_order_v1 True False up2 rnd d current payload =
           (Inl (Unhandled QrError),
            d\<lparr>orders := orders d @ [new_order d (gen_order_number rnd) (c_id current) service
               (p_pickup_date payload) (p_instructions payload)]\<rparr>)"
    using sid svc fresh by (simp add: create_order_v1_cases Let_def)
  have 3: "status_code (Unhandled QrError) = 500" by simp
  have 4: "o_qr_code_path (new_order d (gen_order_number rnd) cid service pd ins) = None"
    by (simp add: new_order_def)
  have k: "o_id (new_order d (gen_order_number rnd) customer_id service
               (field_get (oc_pickup_date body)) (field_get (oc_instructions body)))
           = autoincrement (map o_id (orders d))"
    by (simp add: new_order_def)
  have 5: "get_order (snd (create_order True False up2 rnd d customer_id body))
             (autoincrement (map o_id (orders d))) =
           Some (new_order d (gen_order_number rnd) customer_id service
               (field_get (oc_pickup_date body)) (field_get (oc_instructions body)))"
    using new_row_lookup(2) [OF k refl] by (simp add: 1 get_order_def k)
  from 1 2 3 4 5 show ?thesis by (intro conjI)
qed

theorem qr_failure_propagates_witness:
  "create_order True False True test_rnd test_db 1
     \<lparr>oc_service_id = Some 1, oc_pickup_date = Absent, oc_instructions = Val ''Handle with care''\<rparr>
     = (Inl (Unhandled QrError), test_db\<lparr>orders := [test_order, test_order2]\<rparr>) \<and>
   create_order_v1 True False True test_rnd test_db test_customer
     \<lparr>p_service_id = 1, p_pickup_date = None, p_instructions = Some ''Handle with care''\<rparr>
     = (Inl (Unhandled QrError), test_db\<lparr>orders := [test_order, test_order2]\<rparr>) \<and>
   o_qr_code_path test_order2 = None"
proof -
  have c: "find (\<lambda>c. c_id c = 1) (customers test_db) = Some test_customer"
    by (simp add: test_db_def test_customer_def)
  have s: "find (\<lambda>s. s_id s = 1) (services test_db) = Some test_service"
    by (simp add: test_db_def test_service_def)
  have f: "gen_order_number test_rnd \<notin> set (map o_order_number (orders test_db))"
    by (simp add: test_gen test_db_def test_order_def)
  have b: "oc_service_id \<lparr>oc_service_id = Some 1, oc_pickup_date = Absent,
             oc_instructions = Val ''Handle with care''\<rparr> = Some 1" by simp
  have p: "p_service_id \<lparr>p_service_id = 1, p_pickup_date = None,
             p_instructions = Some ''Handle with care''\<rparr> = 1" by simp
  have i: "c_id test_customer = 1" by (simp add: test_customer_def)
  note T = qr_failure_propagates [OF c b p s f, where ?up2.0 = True and current = test_customer
      and cid = 1 and pd = None and ins = "Some ''Handle with care''"]
  have 1: "create_order True False True test_rnd test_db 1
     \<lparr>oc_service_id = Some 1, oc_pickup_date = Absent, oc_instructions = Val ''Handle with care''\<rparr>
     = (Inl (Unhandled QrError), test_db\<lparr>orders := [test_order, test_order2]\<rparr>)"
    using T [THEN conjunct1] by (simp add: test_new_order) (simp add: test_db_def)
  have 2: "create_order_v1 True False True test_rnd test_db test_customer
     \<lparr>p_service_id = 1, p_pickup_date = None, p_instructions = Some ''Handle with care''\<rparr>
     = (Inl (Unhandled QrError), test_db\<lparr>orders := [test_order, test_order2]\<rparr>)"
    using T [THEN conjunct2, THEN conjunct1] by (simp add: test_new_order i) (simp add: test_db_def)
  have 3: "o_qr_code_path test_order2 = None"
    using T [THEN conjunct2, THEN conjunct2, THEN conjunct2, THEN conjunct1]
    by (simp add: test_new_order)
  from 1 2 3 show ?thesis by (intro conjI)
qed

text \<open>
  The claim as first stated fails on the fixtures: with the label generator failing, the
  result of \<open>create_order\<close> is the unhandled exception, not a response.
\<close>

theorem qr_failure_not_downgraded:
  "fst (create_order True False True test_rnd test_db 1
     \<lparr>oc_service_id = Some 1, oc_pickup_date = Absent, oc_instructions = Val ''Handle with care''\<rparr>)
   = Inl (Unhandled QrError)"
  by (simp add: test_create_order)

section \<open>Updating an order\<close>

lemma set_fields_frame:
  "o_id (set_pickup_date f order) = o_id order"
  "o_order_number (set_pickup_date f order) = o_order_number order"
  "o_customer_id (set_pickup_date f order) = o_customer_id order"
  "o_service_id (set_pickup_date f order) = o_service_id order"
  "o_total_cost (set_pickup_date f order) = o_total_cost order"
  "o_qr_code_path (set_pickup_date f order) = o_qr_code_path order"
  "o_status (set_pickup_date f order) = o_status order"
  "o_id (set_instructions g order) = o_id order"
  "o_order_number (set_instructions g order) = o_order_number order"
  "o_customer_id (set_instructions g order) = o_customer_id order"
  "o_service_id (set_instructions g order) = o_service_id order"
  "o_total_cost (set_instructions g order) = o_total_cost order"
  "o_qr_code_path (set_instructions g order) = o_qr_code_path order"
  "o_status (set_instructions g order) = o_status order"
  by (simp_all add: set_pickup_date_def set_instructions_def split: field.splits)

lemma update_order_cases:
  "update_order up d customer_id order_id body =
     (case find (\<lambda>r. o_id r = order_id) (orders d) of
        None \<Rightarrow> (Inl (Http 404 ''Not Found''), d)
      | Some order \<Rightarrow>
          if o_customer_id order \<noteq> customer_id then (Inl (Http 403 ''Forbidden''), d)
          else (case ou_status body of
             Val s \<Rightarrow>
               if s \<notin> set order_status_choices then (Inl (Http 400 ''Validation error''), d)
               else if \<not> up then (Inl (Unhandled OperationalError), d)
               else (let order3 = (set_instructions (ou_instructions body)
                                    (set_pickup_date (ou_pickup_date body) order))\<lparr>o_status := s\<rparr>
                     in (Inr order3, d\<lparr>orders := replace_row o_id order3 (orders d)\<rparr>))
           | Null \<Rightarrow> (Inl (Unhandled IntegrityError), d)
           | Absent \<Rightarrow>
               if \<not> up then (Inl (Unhandled OperationalError), d)
               else (let order3 = set_instructions (ou_instructions body)
                                    (set_pickup_date (ou_pickup_date body) order)
                     in (Inr order3, d\<lparr>orders := replace_row o_id order3 (orders d)\<rparr>))))"
  by (simp add: update_order_def OrderUpdateSchema_load_def commit_def Let_def
      split: option.splits field.splits)

lemma update_order_v1_cases:
  "update_order_v1 up d current order_id payload =
     (case find (\<lambda>r. o_id r = order_id) (orders d) of
        None \<Rightarrow> (Inl (Http 403 ''Forbidden''), d)
      | Some order \<Rightarrow>
          if o_customer_id order \<noteq> c_id current then (Inl (Http 403 ''Forbidden''), d)
          else if \<not> up then (Inl (Unhandled OperationalError), d)
          else (let order2 = order\<lparr>o_pickup_date :=
                               (case p_pickup_date payload of Some t \<Rightarrow> Some t
                                | None \<Rightarrow> o_pickup_date order),
                             o_instructions :=
                               (if truthy (p_instructions payload) then p_instructions payload
                                else o_instructions order)\<rparr>
                in (Inr ''Updated'', d\<lparr>orders := replace_row o_id order2 (orders d)\<rparr>)))"
  by (simp add: update_order_v1_def commit_def Let_def split: option.splits)

lemma update_order_success:
  assumes "update_order up d customer_id order_id body = (Inr order', d1)"
  shows "\<exists>order. get_order d order_id = Some order \<and> o_customer_id order = customer_id \<and>
           get_order d1 order_id = Some order' \<and>
           o_id order' = o_id order \<and> o_order_number order' = o_order_number order \<and>
           o_customer_id order' = o_customer_id order \<and> o_service_id order' = o_service_id order \<and>
           o_total_cost order' = o_total_cost order \<and> o_qr_code_path order' = o_qr_code_path order \<and>
           o_status order' = (case ou_status body of Val s \<Rightarrow> s | _ \<Rightarrow> o_status order) \<and>
           orders d1 = replace_row o_id order' (orders d) \<and>
           d1\<lparr>orders := orders d\<rparr> = d"
proof -
  from assms obtain order where
    f: "find (\<lambda>r. o_id r = order_id) (orders d) = Some order"
    and own: "o_customer_id order = customer_id"
    by (auto simp: update_order_cases split: option.splits if_splits)
  from find_key_Some [OF f] have k: "o_id order = order_id" by simp
  from assms f own have
    st: "o_status order' = (case ou_status body of Val s \<Rightarrow> s | _ \<Rightarrow> o_status order)"
    and fr: "o_id order' = o_id order" "o_order_number order' = o_order_number order"
      "o_customer_id order' = o_customer_id order" "o_service_id order' = o_service_id order"
      "o_total_cost order' = o_total_cost order" "o_qr_code_path order' = o_qr_code_path order"
    and d1: "d1 = d\<lparr>orders := replace_row o_id order' (orders d)\<rparr>"
    by (auto simp: update_order_cases Let_def set_fields_frame split: field.splits if_splits)
  have "find (\<lambda>r. o_id r = o_id order') (replace_row o_id order' (orders d)) = Some order'"
    by (rule find_replace_row_same [where y = order]) (simp add: fr k f)
  then have g: "get_order d1 order_id = Some order'"
    by (simp add: get_order_def d1 fr k)
  from f own g st fr d1 show ?thesis by (auto simp: get_order_def)
qed

lemma update_order_v1_success:
  assumes "update_order_v1 up d current order_id payload = (Inr msg, d2)"
  shows "\<exists>order order'. get_order d order_id = Some order \<and> o_customer_id order = c_id current \<and>
           get_order d2 order_id = Some order' \<and>
           o_id order' = o_id order \<and> o_order_number order' = o_order_number order \<and>
           o_customer_id order' = o_customer_id order \<and> o_service_id order' = o_service_id order \<and>
           o_total_cost order' = o_total_cost order \<and> o_qr_code_path order' = o_qr_code_path order \<and>
           o_status order' = o_status order \<and>
           orders d2 = replace_row o_id order' (orders d) \<and>
           d2\<lparr>orders := orders d\<rparr> = d"
proof -
  from assms obtain order where
    f: "find (\<lambda>r. o_id r = order_id) (orders d) = Some order"
    and own: "o_customer_id order = c_id current"
    by (auto simp: update_order_v1_cases split: option.splits if_splits)
  from find_key_Some [OF f] have k: "o_id order = order_id" by simp
  define order' where "order' = order\<lparr>o_pickup_date :=
                               (case p_pickup_date payload of Some t \<Rightarrow> Some t
                                | None \<Rightarrow> o_pickup_date order),
                             o_instructions :=
                               (if truthy (p_instructions payload) then p_instructions payload
                                else o_instructions order)\<rparr>"
  from assms f own have d2: "d2 = d\<lparr>orders := replace_row o_id order' (orders d)\<rparr>"
    by (auto simp: update_order_v1_cases Let_def order'_def split: if_splits)
  have fr: "o_id order' = o_id order" "o_order_number order' = o_order_number order"
      "o_customer_id order' = o_customer_id order" "o_service_id order' = o_service_id order"
      "o_total_cost order' = o_total_cost order" "o_qr_code_path order' = o_qr_code_path order"
      "o_status order' = o_status order"
    by (simp_all add: order'_def)
  have "find (\<lambda>r. o_id r = o_id order') (replace_row o_id order' (orders d)) = Some order'"
    by (rule find_replace_row_same [where y = order]) (simp add: fr k f)
  then have g: "get_order d2 order_id = Some order'"
    by (simp add: get_order_def d2 fr k)
  from f own g fr d2 show ?thesis by (auto simp: get_order_def)
qed

lemma get_order_replace_other:
  "orders d1 = replace_row o_id order' (orders d) \<Longrightarrow> k \<noteq> o_id order' \<Longrightarrow>
   get_order d1 k = get_order d k"
  by (simp add: get_order_def find_replace_row_other)

lemma test_find_order: "find (\<lambda>r. o_id r = 1) (orders test_db) = Some test_order"
  by (simp add: test_db_def test_order_def)

lemma test_update_order:
  "update_order True test_db 1 1 \<lparr>ou_pickup_date = Val 5, ou_instructions = Null, ou_status = st\<rparr>
   = (case st of
        Val s \<Rightarrow> if s \<in> set order_status_choices
                 then (Inr (test_order\<lparr>o_pickup_date := Some 5, o_status := s\<rparr>),
                       test_db\<lparr>orders := [test_order\<lparr>o_pickup_date := Some 5, o_status := s\<rparr>]\<rparr>)
                 else (Inl (Http 400 ''Validation error''), test_db)
      | Null \<Rightarrow> (Inl (Unhandled IntegrityError), test_db)
      | Absent \<Rightarrow> (Inr (test_order\<lparr>o_pickup_date := Some 5\<rparr>),
                    test_db\<lparr>orders := [test_order\<lparr>o_pickup_date := Some 5\<rparr>]\<rparr>))"
proof -
  have o: "orders test_db = [test_order]" by (simp add: test_db_def)
  have c: "o_customer_id test_order = 1" "o_id test_order = 1" "o_instructions test_order = None"
    by (simp_all add: test_order_def)
  have e: "test_order\<lparr>o_pickup_date := Some 5, o_instructions := None\<rparr>
           = test_order\<lparr>o_pickup_date := Some 5\<rparr>"
    by (simp add: test_order_def)
  show ?thesis
    unfolding update_order_cases test_find_order
    by (simp add: c o e Let_def set_pickup_date_def set_instructions_def split: field.splits)
qed

lemma test_update_order_v1:
  "update_order_v1 True test_db test_customer 1
     \<lparr>p_service_id = 1, p_pickup_date = Some 5, p_instructions = Some ''''\<rparr>
   = (Inr ''Updated'', test_db\<lparr>orders := [test_order\<lparr>o_pickup_date := Some 5\<rparr>]\<rparr>)"
proof -
  have o: "orders test_db = [test_order]" by (simp add: test_db_def)
  have c: "o_customer_id test_order = 1" "o_id test_order = 1" "c_id test_customer = 1"
     "o_instructions test_order = None"
    by (simp_all add: test_order_def test_customer_def)
  have e: "test_order\<lparr>o_pickup_date := Some 5, o_instructions := None\<rparr>
           = test_order\<lparr>o_pickup_date := Some 5\<rparr>"
    by (simp add: test_order_def)
  show ?thesis
    unfolding update_order_v1_cases test_find_order
    by (simp add: c o e Let_def)
qed

text \<open>
  Claim C2, as amended. A successful update-order changes nothing but the addressed order,
  and of that order nothing but \<open>pickup_date\<close>, \<open>instructions\<close> and, in the Flask back
  end only, \<open>status\<close>: there the status becomes the body's \<open>status\<close> value when the body
  carries one (the schema admits the six status names) and is unchanged otherwise. In the
  FastAPI back end the status after the update always equals the status before. Every
  other order and every other table is unchanged.
\<close>

theorem update_order_frame:
  "(update_order up d customer_id order_id body = (Inr order', d1) \<longrightarrow>
      (\<exists>order. get_order d order_id = Some order \<and> o_customer_id order = customer_id \<and>
         get_order d1 order_id = Some order' \<and>
         o_id order' = o_id order \<and> o_order_number order' = o_order_number order \<and>
         o_customer_id order' = o_customer_id order \<and> o_service_id order' = o_service_id order \<and>
         o_total_cost order' = o_total_cost order \<and> o_qr_code_path order' = o_qr_code_path order \<and>
         o_status order' = (case ou_status body of Val s \<Rightarrow> s | _ \<Rightarrow> o_status order) \<and>
         (\<forall>k. k \<noteq> order_id \<longrightarrow> get_order d1 k = get_order d k) \<and>
         d1\<lparr>orders := orders d\<rparr> = d)) \<and>
   (update_order_v1 up d current order_id payload = (Inr msg, d2) \<longrightarrow>
      (\<exists>order order2. get_order d order_id = Some order \<and> o_customer_id order = c_id current \<and>
         get_order d2 order_id = Some order2 \<and>
         o_id order2 = o_id order \<and> o_order_number order2 = o_order_number order \<and>
         o_customer_id order2 = o_customer_id order \<and> o_service_id order2 = o_service_id order \<and>
         o_total_cost order2 = o_total_cost order \<and> o_qr_code_path order2 = o_qr_code_path order \<and>
         o_status order2 = o_status order \<and>
         (\<forall>k. k \<noteq> order_id \<longrightarrow> get_order d2 k = get_order d k) \<and>
         d2\<lparr>orders := orders d\<rparr> = d))"
proof (intro conjI impI)
  assume a: "update_order up d customer_id order_id body = (Inr order', d1)"
  from update_order_success [OF a] obtain order where
    o: "get_order d order_id = Some order" "o_customer_id order = customer_id"
      "get_order d1 order_id = Some order'"
      "o_id order' = o_id order" "o_order_number order' = o_order_number order"
      "o_customer_id order' = o_customer_id order" "o_service_id order' = o_service_id order"
      "o_total_cost order' = o_total_cost order" "o_qr_code_path order' = o_qr_code_path order"
      "o_status order' = (case ou_status body of Val s \<Rightarrow> s | _ \<Rightarrow> o_status order)"
    and r: "orders d1 = replace_row o_id order' (orders d)"
    and fr: "d1\<lparr>orders := orders d\<rparr> = d"
    by blast
  from o(1) have "o_id order = order_id"
    using find_key_Some [of o_id order_id "orders d" order] by (simp add: get_order_def)
  with o(4) have k: "o_id order' = order_id" by simp
  have "\<forall>k. k \<noteq> order_id \<longrightarrow> get_order d1 k = get_order d k"
    using get_order_replace_other [OF r] k by simp
  with o fr show "\<exists>order. get_order d order_id = Some order \<and> o_customer_id order = customer_id \<and>
         get_order d1 order_id = Some order' \<and>
         o_id order' = o_id order \<and> o_order_number order' = o_order_number order \<and>
         o_customer_id order' = o_customer_id order \<and> o_service_id order' = o_service_id order \<and>
         o_total_cost order' = o_total_cost order \<and> o_qr_code_path order' = o_qr_code_path order \<and>
         o_status order' = (case ou_status body of Val s \<Rightarrow> s | _ \<Rightarrow> o_status order) \<and>
         (\<forall>k. k \<noteq> order_id \<longrightarrow> get_order d1 k = get_order d k) \<and>
         d1\<lparr>orders := orders d\<rparr> = d"
    by blast
next
  assume a: "update_order_v1 up d current order_id payload = (Inr msg, d2)"
  from update_order_v1_success [OF a] obtain order order2 where
    o: "get_order d order_id = Some order" "o_customer_id order = c_id current"
      "get_order d2 order_id = Some order2"
      "o_id order2 = o_id order" "o_order_number order2 = o_order_number order"
      "o_customer_id order2 = o_customer_id order" "o_service_id order2 = o_service_id order"
      "o_total_cost order2 = o_total_cost order" "o_qr_code_path order2 = o_qr_code_path order"
      "o_status order2 = o_status order"
    and r: "orders d2 = replace_row o_id order2 (orders d)"
    and fr: "d2\<lparr>orders := orders d\<rparr> = d"
    by blast
  from o(1) have "o_id order = order_id"
    using find_key_Some [of o_id order_id "orders d" order] by (simp add: get_order_def)
  with o(4) have k: "o_id order2 = order_id" by simp
  have "\<forall>k. k \<noteq> order_id \<longrightarrow> get_order d2 k = get_order d k"
    using get_order_replace_other [OF r] k by simp
  with o fr show "\<exists>order order2. get_order d order_id = Some order \<and> o_customer_id order = c_id current \<and>
         get_order d2 order_id = Some order2 \<and>
         o_id order2 = o_id order \<and> o_order_number order2 = o_order_number order \<and>
         o_customer_id order2 = o_customer_id order \<and> o_service_id order2 = o_service_id order \<and>
         o_total_cost order2 = o_total_cost order \<and> o_qr_code_path order2 = o_qr_code_path order \<and>
         o_status order2 = o_status order \<and>
         (\<forall>k. k \<noteq> order_id \<longrightarrow> get_order d2 k = get_order d k) \<and>
         d2\<lparr>orders := orders d\<rparr> = d"
    by blast
qed

theorem update_order_frame_witness:
  "(\<exists>order. get_order test_db 1 = Some order \<and>
      o_total_cost (test_order\<lparr>o_pickup_date := Some 5\<rparr>) = o_total_cost order \<and>
      o_order_number (test_order\<lparr>o_pickup_date := Some 5\<rparr>) = o_order_number order \<and>
      o_status (test_order\<lparr>o_pickup_date := Some 5\<rparr>) = o_status order) \<and>
   (\<exists>order order2. get_order test_db 1 = Some order \<and>
      get_order (test_db\<lparr>orders := [test_order\<lparr>o_pickup_date := Some 5\<rparr>]\<rparr>) 1 = Some order2 \<and>
      o_total_cost order2 = o_total_cost order \<and> o_status order2 = o_status order)"
proof -
  note T = update_order_frame [where up = True and d = test_db and customer_id = 1
      and order_id = 1 and current = test_customer
      and body = "\<lparr>ou_pickup_date = Val 5, ou_instructions = Null, ou_status = Absent\<rparr>"
      and order' = "test_order\<lparr>o_pickup_date := Some 5\<rparr>"
      and ?d1.0 = "test_db\<lparr>orders := [test_order\<lparr>o_pickup_date := Some 5\<rparr>]\<rparr>"
      and payload = "\<lparr>p_service_id = 1, p_pickup_date = Some 5, p_instructions = Some ''''\<rparr>"
      and msg = "''Updated''"
      and ?d2.0 = "test_db\<lparr>orders := [test_order\<lparr>o_pickup_date := Some 5\<rparr>]\<rparr>"]
  have a: "\<exists>order. get_order test_db 1 = Some order \<and>
      o_total_cost (test_order\<lparr>o_pickup_date := Some 5\<rparr>) = o_total_cost order \<and>
      o_order_number (test_order\<lparr>o_pickup_date := Some 5\<rparr>) = o_order_number order \<and>
      o_status (test_order\<lparr>o_pickup_date := Some 5\<rparr>) = o_status order"
    using T [THEN conjunct1] test_update_order [of Absent] by auto
  have b: "\<exists>order order2. get_order test_db 1 = Some order \<and>
      get_order (test_db\<lparr>orders := [test_order\<lparr>o_pickup_date := Some 5\<rparr>]\<rparr>) 1 = Some order2 \<and>
      o_total_cost order2 = o_total_cost order \<and> o_status order2 = o_status order"
    using T [THEN conjunct2] test_update_order_v1 by auto
  from a b show ?thesis by (rule conjI)
qed

text \<open>
  The claim as first stated fails on the fixtures, with the body the repository's own
  \<^verbatim>\<open>test_update_order\<close> sends: the Flask handler sets the status of the created order to
  \<^verbatim>\<open>processing\<close>.
\<close>

theorem update_order_sets_status:
  "get_order test_db 1 = Some test_order \<and> o_status test_order = ''created'' \<and>
   update_order True test_db 1 1
     \<lparr>ou_pickup_date = Absent, ou_instructions = Absent, ou_status = Val ''processing''\<rparr>
   = (Inr (test_order\<lparr>o_status := ''processing''\<rparr>),
      test_db\<lparr>orders := [test_order\<lparr>o_status := ''processing''\<rparr>]\<rparr>)"
proof -
  have o: "orders test_db = [test_order]" by (simp add: test_db_def)
  have c: "o_customer_id test_order = 1" "o_id test_order = 1" "o_status test_order = ''created''"
    by (simp_all add: test_order_def)
  have "update_order True test_db 1 1
     \<lparr>ou_pickup_date = Absent, ou_instructions = Absent, ou_status = Val ''processing''\<rparr>
   = (Inr (test_order\<lparr>o_status := ''processing''\<rparr>),
      test_db\<lparr>orders := [test_order\<lparr>o_status := ''processing''\<rparr>]\<rparr>)"
    unfolding update_order_cases test_find_order
    by (simp add: c o Let_def set_pickup_date_def set_instructions_def order_status_choices_def)
  then show ?thesis by (simp add: get_order_def test_find_order c)
qed

section \<open>Deleting an order\<close>

lemma delete_order_cases:
  "delete_order up d customer_id order_id =
     (case find (\<lambda>r. o_id r = order_id) (orders d) of
        None \<Rightarrow> (Inl (Http 404 ''Not Found''), d)
      | Some order \<Rightarrow>
          if o_customer_id order \<noteq> customer_id then (Inl (Http 403 ''Forbidden''), d)
          else if \<not> up then (Inl (Unhandled OperationalError), d)
          else if filter (\<lambda>t. t_order_id t = order_id) (tracks d) \<noteq> []
          then (Inl (Unhandled IntegrityError), d)
          else (Inr ''Deleted'', d\<lparr>orders := delete_row o_id order_id (orders d)\<rparr>))"
  by (auto simp: delete_order_def commit_def split: option.splits dest: find_key_Some)

lemma delete_order_v1_cases:
  "delete_order_v1 up d current order_id =
     (case find (\<lambda>r. o_id r = order_id) (orders d) of
        None \<Rightarrow> (Inl (Http 403 ''Forbidden''), d)
      | Some order \<Rightarrow>
          if o_customer_id order \<noteq> c_id current then (Inl (Http 403 ''Forbidden''), d)
          else if \<not> up then (Inl (Unhandled OperationalError), d)
          else if filter (\<lambda>t. t_order_id t = order_id) (tracks d) \<noteq> []
          then (Inl (Unhandled IntegrityError), d)
          else (Inr ''Deleted'', d\<lparr>orders := delete_row o_id order_id (orders d)\<rparr>))"
  by (auto simp: delete_order_v1_def commit_def split: option.splits dest: find_key_Some)

lemma delete_order_tracks: "tracks (snd (delete_order up d customer_id order_id)) = tracks d"
  by (simp add: delete_order_cases split: option.splits)

lemma delete_order_v1_tracks: "tracks (snd (delete_order_v1 up d current order_id)) = tracks d"
  by (simp add: delete_order_v1_cases split: option.splits)

lemma test_get_order_tracked:
  "get_order (test_db\<lparr>tracks := [test_track]\<rparr>) 1 = Some test_order"
  by (simp add: get_order_def test_db_def test_order_def)

text \<open>
  Claim C6, as amended. The delete operation never deletes a Track row: neither back end
  declares a cascade. For an order deleted by its owning customer, with the store
  reachable: if no Track row references the order, the delete succeeds and removes that
  order row; if some Track row references it, the delete fails with an unhandled integrity
  error and removes nothing. Either way the tracks table is unchanged, and after a
  successful delete no Track row references the deleted order.
\<close>

theorem delete_order_no_cascade:
  assumes o: "get_order d order_id = Some order"
    and own: "o_customer_id order = customer_id" "c_id current = customer_id"
  shows "tracks (snd (delete_order up d customer_id order_id)) = tracks d \<and>
         tracks (snd (delete_order_v1 up d current order_id)) = tracks d \<and>
         delete_order True d customer_id order_id =
           (if filter (\<lambda>t. t_order_id t = order_id) (tracks d) = []
            then (Inr ''Deleted'', d\<lparr>orders := delete_row o_id order_id (orders d)\<rparr>)
            else (Inl (Unhandled IntegrityError), d)) \<and>
         delete_order_v1 True d current order_id = delete_order True d customer_id order_id \<and>
         filter (\<lambda>t. t_order_id t = order_id)
           (tracks (snd (delete_order True d customer_id order_id))) =
           (if fst (delete_order True d customer_id order_id) = Inr ''Deleted'' then []
            else filter (\<lambda>t. t_order_id t = order_id) (tracks d))"
proof -
  from o have f: "find (\<lambda>r. o_id r = order_id) (orders d) = Some order"
    by (simp add: get_order_def)
  have 1: "delete_order True d customer_id order_id =
           (if filter (\<lambda>t. t_order_id t = order_id) (tracks d) = []
            then (Inr ''Deleted'', d\<lparr>orders := delete_row o_id order_id (orders d)\<rparr>)
            else (Inl (Unhandled IntegrityError), d))"
    using f own by (simp add: delete_order_cases)
  have 2: "delete_order_v1 True d current order_id = delete_order True d customer_id order_id"
    using f own by (simp add: delete_order_cases delete_order_v1_cases)
  have 3: "filter (\<lambda>t. t_order_id t = order_id)
           (tracks (snd (delete_order True d customer_id order_id))) =
           (if fst (delete_order True d customer_id order_id) = Inr ''Deleted'' then []
            else filter (\<lambda>t. t_order_id t = order_id) (tracks d))"
    by (simp add: 1)
  from delete_order_tracks delete_order_v1_tracks 1 2 3 show ?thesis by (intro conjI)
qed

theorem delete_order_no_cascade_witness:
  "delete_order True test_db 1 1 = (Inr ''Deleted'', test_db\<lparr>orders := []\<rparr>) \<and>
   delete_order_v1 True test_db test_customer 1 = (Inr ''Deleted'', test_db\<lparr>orders := []\<rparr>) \<and>
   delete_order_v1 True (test_db\<lparr>tracks := [test_track]\<rparr>) test_customer 1 =
     (Inl (Unhandled IntegrityError), test_db\<lparr>tracks := [test_track]\<rparr>)"
proof -
  have g: "get_order test_db 1 = Some test_order"
    by (simp add: get_order_def test_db_def test_order_def)
  have own: "o_customer_id test_order = 1" "c_id test_customer = 1"
    by (simp_all add: test_order_def test_customer_def)
  have t: "tracks test_db = []" "orders test_db = [test_order]" "o_id test_order = 1"
    "t_order_id test_track = 1"
    by (simp_all add: test_db_def test_order_def test_track_def)
  note A = delete_order_no_cascade [OF g own, where up = True]
  note B = delete_order_no_cascade [OF test_get_order_tracked own, where up = True]
  have 1: "delete_order True test_db 1 1 = (Inr ''Deleted'', test_db\<lparr>orders := []\<rparr>)"
    using A [THEN conjunct2, THEN conjunct2, THEN conjunct1] by (simp add: t)
  have 2: "delete_order_v1 True test_db test_customer 1 = (Inr ''Deleted'', test_db\<lparr>orders := []\<rparr>)"
    using A [THEN conjunct2, THEN conjunct2, THEN conjunct2, THEN conjunct1] 1 by simp
  have 3: "delete_order_v1 True (test_db\<lparr>tracks := [test_track]\<rparr>) test_customer 1 =
     (Inl (Unhandled IntegrityError), test_db\<lparr>tracks := [test_track]\<rparr>)"
    using B [THEN conjunct2, THEN conjunct2, THEN conjunct1]
      B [THEN conjunct2, THEN conjunct2, THEN conjunct2, THEN conjunct1]
    by (simp add: t)
  from 1 2 3 show ?thesis by (intro conjI)
qed

text \<open>
  The claim as first stated fails on the fixtures: the owner's delete of an order that has
  one track does not succeed, and the order and its track are both still there.
\<close>

theorem delete_order_with_track_fails:
  "delete_order True (test_db\<lparr>tracks := [test_track]\<rparr>) 1 1 =
     (Inl (Unhandled IntegrityError), test_db\<lparr>tracks := [test_track]\<rparr>)"
proof -
  have f: "find (\<lambda>r. o_id r = 1) (orders (test_db\<lparr>tracks := [test_track]\<rparr>)) = Some test_order"
    by (simp add: test_db_def test_order_def)
  have c: "o_customer_id test_order = 1" "t_order_id test_track = 1"
    by (simp_all add: test_order_def test_track_def)
  show ?thesis unfolding delete_order_cases f by (simp add: c)
qed

section \<open>Recording a scan\<close>

lemma find_mem_key:
  "x \<in> set xs \<Longrightarrow> \<exists>y. find (\<lambda>r. key r = key x) xs = Some y"
  by (cases "find (\<lambda>r. key r = key x) xs") (auto simp: find_None_iff)

lemma scan_status_id: "o_id (scan_status action order) = o_id order"
  by (simp add: scan_status_def)

lemma scan_status_v1_id: "o_id (scan_status_v1 action order) = o_id order"
  by (simp add: scan_status_v1_def)

lemma get_order_after_replace:
  assumes "find P (orders d) = Some order" "o_id order' = o_id order"
  shows "get_order (d\<lparr>orders := replace_row o_id order' (orders d), tracks := ts\<rparr>) (o_id order)
         = Some order'"
proof -
  from assms(1) have "order \<in> set (orders d)"
    by (auto simp: find_Some_iff)
  then obtain y where "find (\<lambda>r. o_id r = o_id order) (orders d) = Some y"
    using find_mem_key [of order "orders d" o_id] by blast
  then have "find (\<lambda>r. o_id r = o_id order') (replace_row o_id order' (orders d)) = Some order'"
    using assms(2) by (intro find_replace_row_same [where y = y]) simp
  then show ?thesis by (simp add: get_order_def assms(2))
qed

lemma scan_cases:
  "scan up d auth data =
     (case require_worker_token d auth of
        Inl e \<Rightarrow> (Inl e, d)
      | Inr worker \<Rightarrow>
          if \<not> truthy (sc_order_number data) \<or> \<not> truthy (sc_action data)
          then (Inl (Http 400 ''Missing fields''), d)
          else
     (case find (\<lambda>r. o_order_number r = the (sc_order_number data)) (orders d) of
        None \<Rightarrow> (Inl (Http 404 ''Order not found''), d)
      | Some order \<Rightarrow>
          if \<not> up then (Inl (Unhandled OperationalError), d)
          else (Inr \<lparr>sr_msg = ''Scan recorded'', sr_track_id = autoincrement (map t_id (tracks d)),
                      sr_action = the (sc_action data)\<rparr>,
                d\<lparr>orders := replace_row o_id (scan_status (the (sc_action data)) order) (orders d),
                  tracks := tracks d @
                    [\<lparr>t_id = autoincrement (map t_id (tracks d)), t_order_id = o_id order,
                      t_worker_id = Some (w_id worker), t_action = the (sc_action data),
                      t_note = sc_note data, t_location = sc_location data\<rparr>]\<rparr>)))"
  by (simp add: scan_def commit_def Let_def split: sum.splits option.splits)

lemma scan_v1_cases:
  "scan_v1 up d auth payload =
     (case bearer_token auth of
        None \<Rightarrow> (Inl (Http 401 ''Missing worker token''), d)
      | Some token \<Rightarrow>
     (case find (\<lambda>w. w_token w = Some token) (workers d) of
        None \<Rightarrow> (Inl (Http 401 ''Invalid worker token''), d)
      | Some worker \<Rightarrow>
     (case find (\<lambda>r. o_order_number r = p_order_number payload) (orders d) of
        None \<Rightarrow> (Inl (Http 404 ''Order not found''), d)
      | Some order \<Rightarrow>
          if \<not> up then (Inl (Unhandled OperationalError), d)
          else (Inr \<lparr>sr_msg = ''Scan recorded'', sr_track_id = autoincrement (map t_id (tracks d)),
                      sr_action = p_action payload\<rparr>,
                d\<lparr>orders := replace_row o_id (scan_status_v1 (p_action payload) order) (orders d),
                  tracks := tracks d @
                    [\<lparr>t_id = autoincrement (map t_id (tracks d)), t_order_id = o_id order,
                      t_worker_id = Some (w_id worker), t_action = p_action payload,
                      t_note = None, t_location = p_location payload\<rparr>]\<rparr>))))"
  by (simp add: scan_v1_def commit_def Let_def split: sum.splits option.splits)

lemma scan_failure_unchanged: "isl (fst (scan up d auth data)) \<Longrightarrow> snd (scan up d auth data) = d"
  by (auto simp: scan_cases split: sum.splits option.splits if_splits)

lemma scan_v1_failure_unchanged:
  "isl (fst (scan_v1 up d auth payload)) \<Longrightarrow> snd (scan_v1 up d auth payload) = d"
  by (auto simp: scan_v1_cases split: sum.splits option.splits if_splits)

lemma scan_success:
  assumes "\<not> isl (fst (scan up d auth data))"
  shows "\<exists>worker n action order track.
           require_worker_token d auth = Inr worker \<and>
           sc_order_number data = Some n \<and> sc_action data = Some action \<and>
           find (\<lambda>r. o_order_number r = n) (orders d) = Some order \<and>
           tracks (snd (scan up d auth data)) = tracks d @ [track] \<and>
           t_order_id track = o_id order \<and> t_worker_id track = Some (w_id worker) \<and>
           t_action track = action \<and>
           orders (snd (scan up d auth data)) = replace_row o_id (scan_status action order) (orders d) \<and>
           get_order (snd (scan up d auth data)) (o_id order) = Some (scan_status action order)"
proof -
  from assms obtain worker where w: "require_worker_token d auth = Inr worker"
    by (cases "require_worker_token d auth") (auto simp: scan_cases)
  from assms w have t: "truthy (sc_order_number data)" "truthy (sc_action data)"
    by (auto simp: scan_cases split: if_splits)
  then obtain n action where na: "sc_order_number data = Some n" "sc_action data = Some action"
    by (cases "sc_order_number data"; cases "sc_action data") auto
  from assms w t na obtain order where
    o: "find (\<lambda>r. o_order_number r = n) (orders d) = Some order"
    by (cases "find (\<lambda>r. o_order_number r = n) (orders d)") (auto simp: scan_cases)
  from assms w t na o have up: "up"
    by (auto simp: scan_cases split: if_splits)
  define track where "track = \<lparr>t_id = autoincrement (map t_id (tracks d)), t_order_id = o_id order,
                      t_worker_id = Some (w_id worker), t_action = action,
                      t_note = sc_note data, t_location = sc_location data\<rparr>"
  have s: "snd (scan up d auth data) =
             d\<lparr>orders := replace_row o_id (scan_status action order) (orders d),
               tracks := tracks d @ [track]\<rparr>"
    using w t na o up by (simp add: scan_cases track_def)
  have g: "get_order (snd (scan up d auth data)) (o_id order) = Some (scan_status action order)"
    unfolding s by (rule get_order_after_replace [OF o scan_status_id])
  have "tracks (snd (scan up d auth data)) = tracks d @ [track]"
    "orders (snd (scan up d auth data)) = replace_row o_id (scan_status action order) (orders d)"
    "t_order_id track = o_id order" "t_worker_id track = Some (w_id worker)" "t_action track = action"
    by (simp_all add: s track_def)
  with w na o g show ?thesis by blast
qed

lemma scan_v1_success:
  assumes "\<not> isl (fst (scan_v1 up d auth payload))"
  shows "\<exists>worker order track.
           require_worker_token d auth = Inr worker \<and>
           find (\<lambda>r. o_order_number r = p_order_number payload) (orders d) = Some order \<and>
           tracks (snd (scan_v1 up d auth payload)) = tracks d @ [track] \<and>
           t_order_id track = o_id order \<and> t_worker_id track = Some (w_id worker) \<and>
           t_action track = p_action payload \<and>
           orders (snd (scan_v1 up d auth payload)) =
             replace_row o_id (scan_status_v1 (p_action payload) order) (orders d) \<and>
           get_order (snd (scan_v1 up d auth payload)) (o_id order) =
             Some (scan_status_v1 (p_action payload) order)"
proof -
  from assms obtain token where b: "bearer_token auth = Some token"
    by (cases "bearer_token auth") (auto simp: scan_v1_cases)
  from assms b obtain worker where
    w: "find (\<lambda>w. w_token w = Some token) (workers d) = Some worker"
    by (cases "find (\<lambda>w. w_token w = Some token) (workers d)") (auto simp: scan_v1_cases)
  from assms b w obtain order where
    o: "find (\<lambda>r. o_order_number r = p_order_number payload) (orders d) = Some order"
    by (cases "find (\<lambda>r. o_order_number r = p_order_number payload) (orders d)")
      (auto simp: scan_v1_cases)
  from assms b w o have up: "up"
    by (auto simp: scan_v1_cases split: if_splits)
  define track where "track = \<lparr>t_id = autoincrement (map t_id (tracks d)), t_order_id = o_id order,
                      t_worker_id = Some (w_id worker), t_action = p_action payload,
                      t_note = None, t_location = p_location payload\<rparr>"
  have s: "snd (scan_v1 up d auth payload) =
             d\<lparr>orders := replace_row o_id (scan_status_v1 (p_action payload) order) (orders d),
               tracks := tracks d @ [track]\<rparr>"
    using b w o up by (simp add: scan_v1_cases track_def)
  have g: "get_order (snd (scan_v1 up d auth payload)) (o_id order) =
             Some (scan_status_v1 (p_action payload) order)"
    unfolding s by (rule get_order_after_replace [OF o scan_status_v1_id])
  have r: "require_worker_token d auth = Inr worker"
    using b w by (simp add: require_worker_token_def)
  have "tracks (snd (scan_v1 up d auth payload)) = tracks d @ [track]"
    "orders (snd (scan_v1 up d auth payload)) =
       replace_row o_id (scan_status_v1 (p_action payload) order) (orders d)"
    "t_order_id track = o_id order" "t_worker_id track = Some (w_id worker)"
    "t_action track = p_action payload"
    by (simp_all add: s track_def)
  with r o g show ?thesis by blast
qed

lemma scan_status_recognized:
  "action \<in> set lifecycle_actions \<Longrightarrow> scan_status action order = order\<lparr>o_status := action\<rparr>"
  by (auto simp: scan_status_def lifecycle_actions_def)

lemma scan_status_other:
  "action \<notin> set lifecycle_actions \<Longrightarrow> scan_status action order = order"
  by (auto simp: scan_status_def lifecycle_actions_def)

lemma test_scan:
  "scan up test_db ''Bearer test-worker-token''
     \<lparr>sc_order_number = Some ''ORD-TEST-001'', sc_action = Some action,
      sc_location = Some ''Warehouse A'', sc_note = None\<rparr> =
   (if action = [] then (Inl (Http 400 ''Missing fields''), test_db)
    else if \<not> up then (Inl (Unhandled OperationalError), test_db)
    else (Inr \<lparr>sr_msg = ''Scan recorded'', sr_track_id = 1, sr_action = action\<rparr>,
          test_db\<lparr>orders := [scan_status action test_order],
                  tracks := [test_track\<lparr>t_action := action\<rparr>]\<rparr>))"
proof -
  have f: "o_order_number test_order = ''ORD-TEST-001''" by (simp add: test_order_def)
  have o: "orders test_db = [test_order]" "tracks test_db = []" by (simp_all add: test_db_def)
  have i: "o_id test_order = 1" "w_id test_worker = 1"
    by (simp_all add: test_order_def test_worker_def)
  have t: "\<lparr>t_id = 1, t_order_id = 1, t_worker_id = Some 1, t_action = action, t_note = None,
             t_location = Some ''Warehouse A''\<rparr> = test_track\<lparr>t_action := action\<rparr>"
    by (simp add: test_track_def)
  show ?thesis
    unfolding scan_cases test_auth
    by (simp add: f o i t scan_status_id autoincrement_def)
qed

lemma test_scan_v1:
  "scan_v1 up test_db ''Bearer test-worker-token''
     \<lparr>p_order_number = ''ORD-TEST-001'', p_action = action, p_location = Some ''Warehouse A''\<rparr> =
   (if \<not> up then (Inl (Unhandled OperationalError), test_db)
    else (Inr \<lparr>sr_msg = ''Scan recorded'', sr_track_id = 1, sr_action = action\<rparr>,
          test_db\<lparr>orders := [scan_status_v1 action test_order],
                  tracks := [test_track\<lparr>t_action := action\<rparr>]\<rparr>))"
proof -
  have b: "bearer_token ''Bearer test-worker-token'' = Some ''test-worker-token''"
    by (simp add: bearer_token_def)
  have w: "find (\<lambda>w. w_token w = Some ''test-worker-token'') (workers test_db) = Some test_worker"
    by (simp add: test_db_def test_worker_def)
  have f: "o_order_number test_order = ''ORD-TEST-001''" by (simp add: test_order_def)
  have o: "orders test_db = [test_order]" "tracks test_db = []" by (simp_all add: test_db_def)
  have i: "o_id test_order = 1" "w_id test_worker = 1"
    by (simp_all add: test_order_def test_worker_def)
  have t: "\<lparr>t_id = 1, t_order_id = 1, t_worker_id = Some 1, t_action = action, t_note = None,
             t_location = Some ''Warehouse A''\<rparr> = test_track\<lparr>t_action := action\<rparr>"
    by (simp add: test_track_def)
  show ?thesis
    unfolding scan_v1_cases b
    by (simp add: w f o i t scan_status_v1_id autoincrement_def)
qed

text \<open>
  A scan whose action is one of the four lifecycle actions, on the Flask back end: it
  either fails and leaves the store exactly as it was, or it appends the Track row (this
  order, this worker, this action) and the scanned order's status is the action. The
  FastAPI back end has the same property for the two actions its chain handles,
  \<^verbatim>\<open>picked_up\<close> and \<^verbatim>\<open>delivered\<close>.
\<close>

lemma scan_lifecycle_all_or_nothing:
  assumes a: "sc_action data = Some action" and l: "action \<in> set lifecycle_actions"
  shows "(isl (fst (scan up d auth data)) \<and> snd (scan up d auth data) = d) \<or>
    (\<exists>worker n order track.
           require_worker_token d auth = Inr worker \<and>
           sc_order_number data = Some n \<and>
           find (\<lambda>r. o_order_number r = n) (orders d) = Some order \<and>
           tracks (snd (scan up d auth data)) = tracks d @ [track] \<and>
           t_order_id track = o_id order \<and> t_worker_id track = Some (w_id worker) \<and>
           t_action track = action \<and>
           get_order (snd (scan up d auth data)) (o_id order) = Some (order\<lparr>o_status := action\<rparr>))"
proof (cases "isl (fst (scan up d auth data))")
  case True
  then show ?thesis using scan_failure_unchanged by blast
next
  case False
  from scan_success [OF False] obtain worker n action' order track where
    h: "require_worker_token d auth = Inr worker" "sc_order_number data = Some n"
      "sc_action data = Some action'"
      "find (\<lambda>r. o_order_number r = n) (orders d) = Some order"
      "tracks (snd (scan up d auth data)) = tracks d @ [track]"
      "t_order_id track = o_id order" "t_worker_id track = Some (w_id worker)"
      "t_action track = action'"
      "get_order (snd (scan up d auth data)) (o_id order) = Some (scan_status action' order)"
    by blast
  from a h(3) have e: "action' = action" by simp
  from h(9) have "get_order (snd (scan up d auth data)) (o_id order) = Some (order\<lparr>o_status := action\<rparr>)"
    by (simp add: e scan_status_recognized [OF l])
  with h e show ?thesis by blast
qed

lemma scan_v1_mapped_all_or_nothing:
  assumes l: "p_action payload = ''picked_up'' \<or> p_action payload = ''delivered''"
  shows "(isl (fst (scan_v1 up d auth payload)) \<and> snd (scan_v1 up d auth payload) = d) \<or>
    (\<exists>worker order track.
           require_worker_token d auth = Inr worker \<and>
           find (\<lambda>r. o_order_number r = p_order_number payload) (orders d) = Some order \<and>
           tracks (snd (scan_v1 up d auth payload)) = tracks d @ [track] \<and>
           t_order_id track = o_id order \<and> t_worker_id track = Some (w_id worker) \<and>
           t_action track = p_action payload \<and>
           get_order (snd (scan_v1 up d auth payload)) (o_id order) =
             Some (order\<lparr>o_status := p_action payload\<rparr>))"
proof (cases "isl (fst (scan_v1 up d auth payload))")
  case True
  then show ?thesis using scan_v1_failure_unchanged by blast
next
  case False
  from scan_v1_success [OF False] obtain worker order track where
    h: "require_worker_token d auth = Inr worker"
      "find (\<lambda>r. o_order_number r = p_order_number payload) (orders d) = Some order"
      "tracks (snd (scan_v1 up d auth payload)) = tracks d @ [track]"
      "t_order_id track = o_id order" "t_worker_id track = Some (w_id worker)"
      "t_action track = p_action payload"
      "get_order (snd (scan_v1 up d auth payload)) (o_id order) =
         Some (scan_status_v1 (p_action payload) order)"
    by blast
  from l have "scan_status_v1 (p_action payload) order = order\<lparr>o_status := p_action payload\<rparr>"
    by (auto simp: scan_status_v1_def)
  with h show ?thesis by auto
qed

text \<open>
  Claim C5 on the FastAPI back end, at the fixtures: the worker scans the created order
  with the lifecycle action \<^verbatim>\<open>completed\<close>. The scan succeeds and its one commit writes the
  Track row, but no status change comes with it: afterwards the tracks table holds the new
  \<^verbatim>\<open>completed\<close> Track while the order is still in status \<^verbatim>\<open>created\<close>. This is a Track
  recorded with a stale order status, the outcome the claim excludes.
\<close>

theorem scan_v1_completed_track_with_stale_status:
  "''completed'' \<in> set lifecycle_actions \<and>
   fst (scan_v1 True test_db ''Bearer test-worker-token''
     \<lparr>p_order_number = ''ORD-TEST-001'', p_action = ''completed'',
      p_location = Some ''Warehouse A''\<rparr>) =
     Inr \<lparr>sr_msg = ''Scan recorded'', sr_track_id = 1, sr_action = ''completed''\<rparr> \<and>
   tracks (snd (scan_v1 True test_db ''Bearer test-worker-token''
     \<lparr>p_order_number = ''ORD-TEST-001'', p_action = ''completed'',
      p_location = Some ''Warehouse A''\<rparr>)) =
     tracks test_db @ [test_track\<lparr>t_action := ''completed''\<rparr>] \<and>
   get_order test_db 1 = Some test_order \<and>
   get_order (snd (scan_v1 True test_db ''Bearer test-worker-token''
     \<lparr>p_order_number = ''ORD-TEST-001'', p_action = ''completed'',
      p_location = Some ''Warehouse A''\<rparr>)) 1 = Some test_order \<and>
   o_status test_order = ''created''"
proof -
  have s: "scan_status_v1 ''completed'' test_order = test_order"
    by (simp add: scan_status_v1_def)
  have r: "scan_v1 True test_db ''Bearer test-worker-token''
     \<lparr>p_order_number = ''ORD-TEST-001'', p_action = ''completed'',
      p_location = Some ''Warehouse A''\<rparr> =
     (Inr \<lparr>sr_msg = ''Scan recorded'', sr_track_id = 1, sr_action = ''completed''\<rparr>,
      test_db\<lparr>orders := [test_order], tracks := [test_track\<lparr>t_action := ''completed''\<rparr>]\<rparr>)"
    by (simp add: test_scan_v1 s)
  have 1: "''completed'' \<in> set lifecycle_actions" by (simp add: lifecycle_actions_def)
  have 2: "fst (scan_v1 True test_db ''Bearer test-worker-token''
     \<lparr>p_order_number = ''ORD-TEST-001'', p_action = ''completed'',
      p_location = Some ''Warehouse A''\<rparr>) =
     Inr \<lparr>sr_msg = ''Scan recorded'', sr_track_id = 1, sr_action = ''completed''\<rparr>"
    by (simp add: r)
  have 3: "tracks (snd (scan_v1 True test_db ''Bearer test-worker-token''
     \<lparr>p_order_number = ''ORD-TEST-001'', p_action = ''completed'',
      p_location = Some ''Warehouse A''\<rparr>)) =
     tracks test_db @ [test_track\<lparr>t_action := ''completed''\<rparr>]"
    by (simp add: r) (simp add: test_db_def)
  have 4: "get_order test_db 1 = Some test_order"
    by (simp add: get_order_def test_db_def test_order_def)
  have 5: "get_order (snd (scan_v1 True test_db ''Bearer test-worker-token''
     \<lparr>p_order_number = ''ORD-TEST-001'', p_action = ''completed'',
      p_location = Some ''Warehouse A''\<rparr>)) 1 = Some test_order"
    by (simp add: r get_order_def test_order_def)
  have 6: "o_status test_order = ''created''" by (simp add: test_order_def)
  from 1 2 3 4 5 6 show ?thesis by (intro conjI)
qed

text \<open>
  The Flask \<open>scan\<close>, for a request by an authenticated worker that carries an order number
  and an action and addresses an existing order: a Track row with that action, order and
  worker is appended, and the order's status becomes the action when the action is one of
  the four lifecycle actions and stays as it was otherwise.
\<close>

lemma scan_flask_recorded:
  assumes w: "require_worker_token d auth = Inr worker"
    and n: "sc_order_number data = Some n" "n \<noteq> []"
    and a: "sc_action data = Some action" "action \<noteq> []"
    and o: "find (\<lambda>r. o_order_number r = n) (orders d) = Some order"
  shows "\<exists>track. scan True d auth data =
           (Inr \<lparr>sr_msg = ''Scan recorded'', sr_track_id = t_id track, sr_action = action\<rparr>,
            d\<lparr>orders := replace_row o_id (scan_status action order) (orders d),
              tracks := tracks d @ [track]\<rparr>) \<and>
           t_action track = action \<and> t_order_id track = o_id order \<and>
           t_worker_id track = Some (w_id worker) \<and>
           get_order (snd (scan True d auth data)) (o_id order) = Some (scan_status action order) \<and>
           scan_status action order =
             (if action \<in> set lifecycle_actions then order\<lparr>o_status := action\<rparr> else order)"
proof -
  define track where "track = \<lparr>t_id = autoincrement (map t_id (tracks d)), t_order_id = o_id order,
                      t_worker_id = Some (w_id worker), t_action = action,
                      t_note = sc_note data, t_location = sc_location data\<rparr>"
  have s: "scan True d auth data =
           (Inr \<lparr>sr_msg = ''Scan recorded'', sr_track_id = t_id track, sr_action = action\<rparr>,
            d\<lparr>orders := replace_row o_id (scan_status action order) (orders d),
              tracks := tracks d @ [track]\<rparr>)"
    using w n a o by (simp add: scan_cases track_def)
  have g: "get_order (snd (scan True d auth data)) (o_id order) = Some (scan_status action order)"
    unfolding s snd_conv by (rule get_order_after_replace [OF o scan_status_id])
  have m: "scan_status action order =
             (if action \<in> set lifecycle_actions then order\<lparr>o_status := action\<rparr> else order)"
    by (simp add: scan_status_recognized scan_status_other)
  have "t_action track = action" "t_order_id track = o_id order"
    "t_worker_id track = Some (w_id worker)"
    by (simp_all add: track_def)
  with s g m show ?thesis by blast
qed

lemma scan_flask_recorded_witness:
  "\<exists>track. scan True test_db ''Bearer test-worker-token''
     \<lparr>sc_order_number = Some ''ORD-TEST-001'', sc_action = Some ''completed'',
      sc_location = Some ''Warehouse A'', sc_note = None\<rparr> =
       (Inr \<lparr>sr_msg = ''Scan recorded'', sr_track_id = t_id track, sr_action = ''completed''\<rparr>,
        test_db\<lparr>orders := [test_order\<lparr>o_status := ''completed''\<rparr>], tracks := [track]\<rparr>) \<and>
     t_action track = ''completed'' \<and> t_order_id track = 1 \<and> t_worker_id track = Some 1"
proof -
  have f: "find (\<lambda>r. o_order_number r = ''ORD-TEST-001'') (orders test_db) = Some test_order"
    by (simp add: test_db_def test_order_def)
  have d: "sc_order_number \<lparr>sc_order_number = Some ''ORD-TEST-001'', sc_action = Some ''completed'',
      sc_location = Some ''Warehouse A'', sc_note = None\<rparr> = Some ''ORD-TEST-001''"
    "sc_action \<lparr>sc_order_number = Some ''ORD-TEST-001'', sc_action = Some ''completed'',
      sc_location = Some ''Warehouse A'', sc_note = None\<rparr> = Some ''completed''"
    by simp_all
  have ne: "''ORD-TEST-001'' \<noteq> []" "''completed'' \<noteq> []" by simp_all
  have i: "o_id test_order = 1" "w_id test_worker = 1" "orders test_db = [test_order]"
    "tracks test_db = []"
    by (simp_all add: test_order_def test_worker_def test_db_def)
  from scan_flask_recorded [OF test_auth d(1) ne(1) d(2) ne(2) f]
  show ?thesis
    by (auto simp: i scan_status_def lifecycle_actions_def)
qed

text \<open>
  Claim C1 on the FastAPI back end, at the fixtures: the worker scans the created order
  with the action \<^verbatim>\<open>processing\<close>. The Track row is appended, but the order is still in
  status \<^verbatim>\<open>created\<close>: the handler's chain has branches for \<^verbatim>\<open>picked_up\<close> and
  \<^verbatim>\<open>delivered\<close> only. The Flask handler, on the same request, sets the status to
  \<^verbatim>\<open>processing\<close>.
\<close>

theorem scan_v1_processing_keeps_status:
  "scan_v1 True test_db ''Bearer test-worker-token''
     \<lparr>p_order_number = ''ORD-TEST-001'', p_action = ''processing'',
      p_location = Some ''Warehouse A''\<rparr> =
     (Inr \<lparr>sr_msg = ''Scan recorded'', sr_track_id = 1, sr_action = ''processing''\<rparr>,
      test_db\<lparr>tracks := [test_track\<lparr>t_action := ''processing''\<rparr>]\<rparr>) \<and>
   get_order (test_db\<lparr>tracks := [test_track\<lparr>t_action := ''processing''\<rparr>]\<rparr>) 1 = Some test_order \<and>
   o_status test_order = ''created''"
proof -
  have o: "test_db\<lparr>orders := [test_order]\<rparr> = test_db" by (simp add: test_db_def)
  have 1: "scan_v1 True test_db ''Bearer test-worker-token''
     \<lparr>p_order_number = ''ORD-TEST-001'', p_action = ''processing'',
      p_location = Some ''Warehouse A''\<rparr> =
     (Inr \<lparr>sr_msg = ''Scan recorded'', sr_track_id = 1, sr_action = ''processing''\<rparr>,
      test_db\<lparr>tracks := [test_track\<lparr>t_action := ''processing''\<rparr>]\<rparr>)"
    by (simp add: test_scan_v1 scan_status_v1_def o)
  have 2: "get_order (test_db\<lparr>tracks := [test_track\<lparr>t_action := ''processing''\<rparr>]\<rparr>) 1 = Some test_order"
    by (simp add: get_order_def test_db_def test_order_def)
  have 3: "o_status test_order = ''created''" by (simp add: test_order_def)
  from 1 2 3 show ?thesis by (intro conjI)
qed

lemma scan_flask_processing_sets_status:
  "scan True test_db ''Bearer test-worker-token''
     \<lparr>sc_order_number = Some ''ORD-TEST-001'', sc_action = Some ''processing'',
      sc_location = Some ''Warehouse A'', sc_note = None\<rparr> =
     (Inr \<lparr>sr_msg = ''Scan recorded'', sr_track_id = 1, sr_action = ''processing''\<rparr>,
      test_db\<lparr>orders := [test_order\<lparr>o_status := ''processing''\<rparr>],
              tracks := [test_track\<lparr>t_action := ''processing''\<rparr>]\<rparr>)"
  by (simp add: test_scan scan_status_def)

end
